theory Spec2Isabelle
  imports Complex_Main
begin

section \<open>Data model (types.ts)\<close>

text \<open>
  JavaScript numbers are modelled as real numbers: arithmetic is exact, and there is
  no NaN, no infinity and no rounding.  Every statement below is a statement about this
  idealised arithmetic, with one exception: the line gap \<open>getLineHeightOffset\<close> is also
  modelled in binary64, every operation rounded to the nearest double
  (\<open>getLineHeightOffset64\<close>), and what is stated of its monotonicity and of its floor is
  stated of that model.  A string is a list of 8-bit characters, so a text is read as far
  as its characters lie below U+0100.  Record fields carry a short prefix where the bare
  source name would capture an ordinary variable name (\<open>x\<close>, \<open>y\<close>, \<open>width\<close>, \<open>id\<close>,
  \<open>text\<close>, \<open>size\<close>).
\<close>

datatype BubbleType = SpeechDown | SpeechUp | Thought | Shout | Descriptive | Whisper | TextOnly

datatype FontName = Comic | Bangers | Indie | Marker | Arial

record SpeechTailPart =
  tail_id :: string
  baseCX :: real
  baseCY :: real
  baseWidth :: real
  tipX :: real
  tipY :: real
  initialLength :: real
  initialBaseWidth :: real

record ThoughtDotPart =
  dot_id :: string
  offsetX :: real
  offsetY :: real
  dot_size :: real

datatype BubblePart = SpeechTail SpeechTailPart | ThoughtDot ThoughtDotPart

record Bubble =
  b_id :: string
  b_type :: BubbleType
  b_text :: string
  b_x :: real
  b_y :: real
  b_width :: real
  b_height :: real
  b_fontFamily :: FontName
  b_fontSize :: real
  b_textColor :: string
  b_borderColor :: string
  b_zIndex :: real
  b_parts :: "BubblePart list"
  b_shapeVariant :: "real option"

definition MIN_BUBBLE_WIDTH :: real where
  "MIN_BUBBLE_WIDTH = 50"

definition MIN_BUBBLE_HEIGHT :: real where
  "MIN_BUBBLE_HEIGHT = 30"

section \<open>Outline paths (utils/bubbleUtils.ts)\<close>

text \<open>
  A template literal is a sequence of literal chunks and interpolated numbers.  The
  outline is kept in that form: \<open>Lit\<close> is a chunk of the template, \<open>Num\<close> an
  interpolated number.  The string the browser receives is \<open>render fmt\<close> of the token
  list, where \<open>fmt\<close> is the host's number-to-string conversion.
\<close>

datatype tok = Lit string | Num real

fun tok_text :: "(real \<Rightarrow> string) \<Rightarrow> tok \<Rightarrow> string" where
  "tok_text fmt (Lit s) = s"
| "tok_text fmt (Num v) = fmt v"

definition render :: "(real \<Rightarrow> string) \<Rightarrow> tok list \<Rightarrow> string" where
  "render fmt p = concat (map (tok_text fmt) p)"

record Circle =
  circ_id :: string
  circ_cx :: real
  circ_cy :: real
  circ_r :: real

record BubblePaths =
  bodyPath :: "tok list"
  partsCircles :: "Circle list"

text \<open>The rounded rectangle template, written out three times in the source
  (the speech bubble without a tail, the tail in the middle, the descriptive box).\<close>

definition roundedRect :: "real \<Rightarrow> real \<Rightarrow> real \<Rightarrow> tok list" where
  "roundedRect r w h =
    [Lit ''M'', Num r, Lit '',0 L'', Num (w - r), Lit '',0 A'', Num r, Lit '','', Num r,
     Lit '' 0 0 1 '', Num w, Lit '','', Num r, Lit '' L'', Num w, Lit '','', Num (h - r),
     Lit '' A'', Num r, Lit '','', Num r, Lit '' 0 0 1 '', Num (w - r), Lit '','', Num h,
     Lit '' L'', Num r, Lit '','', Num h, Lit '' A'', Num r, Lit '','', Num r,
     Lit '' 0 0 1 0,'', Num (h - r), Lit '' L0,'', Num r, Lit '' A'', Num r, Lit '','', Num r,
     Lit '' 0 0 1 '', Num r, Lit '',0 Z'']"

text \<open>\<open>createTailPath\<close> closes over \<open>clampedBaseCY\<close>, \<open>tipX\<close> and \<open>tipY\<close>; they
  are its first three arguments here.  A point is a pair \<open>(x, y)\<close>.\<close>

definition createTailPath ::
  "real \<Rightarrow> real \<Rightarrow> real \<Rightarrow> real \<times> real \<Rightarrow> real \<times> real \<Rightarrow> tok list" where
  "createTailPath clampedBaseCY tX tY startPt endPt =
    (let midY = clampedBaseCY + (tY - clampedBaseCY) * 0.5 in
      [Lit ''L '', Num (fst startPt), Lit '','', Num (snd startPt),
       Lit '' Q '', Num (fst startPt + (tX - fst startPt) * 0.25), Lit '','', Num midY,
       Lit '' '', Num tX, Lit '','', Num tY,
       Lit '' Q '', Num (fst endPt + (tX - fst endPt) * 0.25), Lit '','', Num midY,
       Lit '' '', Num (fst endPt), Lit '','', Num (snd endPt)])"

text \<open>\<open>parts.find(p => p.type === 'speech-tail')\<close>: the first tail part, if any.\<close>

fun findTail :: "BubblePart list \<Rightarrow> SpeechTailPart option" where
  "findTail [] = None"
| "findTail (SpeechTail t # ps) = Some t"
| "findTail (ThoughtDot d # ps) = findTail ps"

text \<open>
  The four templates with a tail, one per edge.  Each takes the local variables it
  interpolates; \<open>tailPath\<close> is the text \<open>createTailPath\<close> returned.
\<close>

definition pathTailBottom :: "real \<Rightarrow> real \<Rightarrow> real \<Rightarrow> real \<Rightarrow> tok list \<Rightarrow> tok list" where
  "pathTailBottom r w h rightBaseX tailPath =
    [Lit ''M'', Num r, Lit '',0 L'', Num (w - r), Lit '',0 A'', Num r, Lit '','', Num r,
     Lit '' 0 0 1 '', Num w, Lit '','', Num r, Lit '' L'', Num w, Lit '','', Num (h - r),
     Lit '' A'', Num r, Lit '','', Num r, Lit '' 0 0 1 '', Num (w - r), Lit '','', Num h,
     Lit '' L'', Num rightBaseX, Lit '','', Num h, Lit '' '']
    @ tailPath
    @ [Lit '' L'', Num r, Lit '','', Num h, Lit '' A'', Num r, Lit '','', Num r,
       Lit '' 0 0 1 0,'', Num (h - r), Lit '' L0,'', Num r, Lit '' A'', Num r, Lit '','',
       Num r, Lit '' 0 0 1 '', Num r, Lit '',0 Z'']"

definition pathTailTop :: "real \<Rightarrow> real \<Rightarrow> real \<Rightarrow> real \<Rightarrow> tok list \<Rightarrow> tok list" where
  "pathTailTop r w h leftBaseX tailPath =
    [Lit ''M'', Num r, Lit '',0 L'', Num leftBaseX, Lit '',0 '']
    @ tailPath
    @ [Lit '' L'', Num (w - r), Lit '',0 A'', Num r, Lit '','', Num r, Lit '' 0 0 1 '',
       Num w, Lit '','', Num r, Lit '' L'', Num w, Lit '','', Num (h - r), Lit '' A'',
       Num r, Lit '','', Num r, Lit '' 0 0 1 '', Num (w - r), Lit '','', Num h,
       Lit '' L'', Num r, Lit '','', Num h, Lit '' A'', Num r, Lit '','', Num r,
       Lit '' 0 0 1 0,'', Num (h - r), Lit '' L0,'', Num r, Lit '' A'', Num r, Lit '','',
       Num r, Lit '' 0 0 1 '', Num r, Lit '',0 Z'']"

definition pathTailRight :: "real \<Rightarrow> real \<Rightarrow> real \<Rightarrow> real \<Rightarrow> tok list \<Rightarrow> tok list" where
  "pathTailRight r w h topBaseY tailPath =
    [Lit ''M'', Num r, Lit '',0 L'', Num (w - r), Lit '',0 A'', Num r, Lit '','', Num r,
     Lit '' 0 0 1 '', Num w, Lit '','', Num r, Lit '' L'', Num w, Lit '','', Num topBaseY,
     Lit '' '']
    @ tailPath
    @ [Lit '' L'', Num w, Lit '','', Num (h - r), Lit '' A'', Num r, Lit '','', Num r,
       Lit '' 0 0 1 '', Num (w - r), Lit '','', Num h, Lit '' L'', Num r, Lit '','', Num h,
       Lit '' A'', Num r, Lit '','', Num r, Lit '' 0 0 1 0,'', Num (h - r), Lit '' L0,'',
       Num r, Lit '' A'', Num r, Lit '','', Num r, Lit '' 0 0 1 '', Num r, Lit '',0 Z'']"

definition pathTailLeft :: "real \<Rightarrow> real \<Rightarrow> real \<Rightarrow> real \<Rightarrow> tok list \<Rightarrow> tok list" where
  "pathTailLeft r w h bottomBaseY tailPath =
    [Lit ''M'', Num r, Lit '',0 L'', Num (w - r), Lit '',0 A'', Num r, Lit '','', Num r,
     Lit '' 0 0 1 '', Num w, Lit '','', Num r, Lit '' L'', Num w, Lit '','', Num (h - r),
     Lit '' A'', Num r, Lit '','', Num r, Lit '' 0 0 1 '', Num (w - r), Lit '','', Num h,
     Lit '' L'', Num r, Lit '','', Num h, Lit '' A'', Num r, Lit '','', Num r,
     Lit '' 0 0 1 0,'', Num (h - r), Lit '' L0,'', Num bottomBaseY, Lit '' '']
    @ tailPath
    @ [Lit '' L0,'', Num r, Lit '' A'', Num r, Lit '','', Num r, Lit '' 0 0 1 '', Num r,
       Lit '',0 Z'']"

text \<open>The branch of \<open>generateBubblePaths\<close> for a speech bubble that carries a tail.\<close>

definition speechPath :: "real \<Rightarrow> real \<Rightarrow> real \<Rightarrow> SpeechTailPart \<Rightarrow> tok list" where
  "speechPath r w h tail =
    (let halfBase = baseWidth tail / 2;
         clampedBaseCX = max 0 (min w (baseCX tail));
         clampedBaseCY = max 0 (min h (baseCY tail));
         tailPath = createTailPath clampedBaseCY (tipX tail) (tipY tail)
     in
      if clampedBaseCY = h then
        (let leftBaseX = max r (clampedBaseCX - halfBase);
             rightBaseX = min (w - r) (clampedBaseCX + halfBase)
         in pathTailBottom r w h rightBaseX (tailPath (rightBaseX, h) (leftBaseX, h)))
      else if clampedBaseCY = 0 then
        (let leftBaseX = max r (clampedBaseCX - halfBase);
             rightBaseX = min (w - r) (clampedBaseCX + halfBase)
         in pathTailTop r w h leftBaseX (tailPath (leftBaseX, 0) (rightBaseX, 0)))
      else if clampedBaseCX = w then
        (let topBaseY = max r (clampedBaseCY - halfBase);
             bottomBaseY = min (h - r) (clampedBaseCY + halfBase)
         in pathTailRight r w h topBaseY (tailPath (w, topBaseY) (w, bottomBaseY)))
      else if clampedBaseCX = 0 then
        (let topBaseY = max r (clampedBaseCY - halfBase);
             bottomBaseY = min (h - r) (clampedBaseCY + halfBase)
         in pathTailLeft r w h bottomBaseY (tailPath (0, bottomBaseY) (0, topBaseY)))
      else roundedRect r w h)"

subsection \<open>The seeded generator\<close>

text \<open>\<open>bubble.id.split('').reduce((acc, char) => acc + char.charCodeAt(0), 0)
  + (bubble.shapeVariant || 0)\<close>; an absent variant and the variant 0 both count 0.\<close>

definition seedOf :: "Bubble \<Rightarrow> real" where
  "seedOf bubble =
    foldl (\<lambda>acc c. acc + real (of_char c)) 0 (b_id bubble)
    + (case b_shapeVariant bubble of None \<Rightarrow> 0 | Some v \<Rightarrow> v)"

text \<open>\<open>random\<close> reads and increments \<open>randomState\<close>; the state is passed explicitly and
  returned with the drawn number.\<close>

definition prng_random :: "real \<Rightarrow> real \<times> real" where
  "prng_random randomState =
    (let x = sin randomState * 10000 in (x - of_int \<lfloor>x\<rfloor>, randomState + 1))"

subsection \<open>Thought and shout outlines\<close>

definition thoughtLobe ::
  "real \<Rightarrow> real \<Rightarrow> real \<Rightarrow> real \<Rightarrow> nat \<Rightarrow> nat \<Rightarrow> real \<Rightarrow> tok list" where
  "thoughtLobe cx cy rx ry lobes i bulgeFactor =
    (let angle = (real i / real lobes) * pi * 2 - pi / 2;
         nextAngle = (real (i + 1) / real lobes) * pi * 2 - pi / 2;
         x1 = cx + rx * cos angle;
         y1 = cy + ry * sin angle;
         x2 = cx + rx * cos nextAngle;
         y2 = cy + ry * sin nextAngle;
         midAngle = (angle + nextAngle) / 2;
         cpx = cx + rx * bulgeFactor * cos midAngle;
         cpy = cy + ry * bulgeFactor * sin midAngle
     in (if i = 0 then [Lit ''M'', Num x1, Lit '','', Num y1] else [])
        @ [Lit '' Q'', Num cpx, Lit '','', Num cpy, Lit '' '', Num x2, Lit '','', Num y2])"

function thoughtLoop ::
  "real \<Rightarrow> real \<Rightarrow> real \<Rightarrow> real \<Rightarrow> nat \<Rightarrow> nat \<Rightarrow> tok list \<Rightarrow> real \<Rightarrow> tok list \<times> real" where
  "thoughtLoop cx cy rx ry lobes i path randomState =
    (if i < lobes then
       (let bulgeFactor = 1.3 + fst (prng_random randomState) * 0.3
        in thoughtLoop cx cy rx ry lobes (Suc i)
             (path @ thoughtLobe cx cy rx ry lobes i bulgeFactor)
             (snd (prng_random randomState)))
     else (path, randomState))"
  by pat_completeness auto
termination
  by (relation "measure (\<lambda>(cx, cy, rx, ry, lobes, i, path, randomState). lobes - i)") auto

definition thoughtPath :: "real \<Rightarrow> real \<Rightarrow> real \<Rightarrow> tok list" where
  "thoughtPath w h seed =
    (let cx = w / 2;
         cy = h / 2;
         rx = w * 0.30;
         ry = h * 0.30;
         lobes = nat (\<lfloor>fst (prng_random seed) * 6\<rfloor> + 7);
         path = fst (thoughtLoop cx cy rx ry lobes 0 [] (snd (prng_random seed)))
     in path @ [Lit '' Z''])"

definition shoutPoint ::
  "real \<Rightarrow> real \<Rightarrow> real \<Rightarrow> real \<Rightarrow> real \<Rightarrow> real \<Rightarrow> nat \<Rightarrow> nat \<Rightarrow> real \<Rightarrow> tok list" where
  "shoutPoint cx cy outerRx outerRy innerRx innerRy points i u =
    (let angle = (real i * pi) / real points - pi / 2;
         isOuter = (i mod 2 = 0);
         randomFactor = (if isOuter then 0.6 + u * 0.8 else 0.9 + u * 0.2);
         currRx = (if isOuter then outerRx else innerRx) * randomFactor;
         currRy = (if isOuter then outerRy else innerRy) * randomFactor;
         px = cx + currRx * cos angle;
         py = cy + currRy * sin angle
     in [Lit (if i = 0 then ''M'' else ''L''), Num px, Lit '','', Num py, Lit '' ''])"

function shoutLoop ::
  "real \<Rightarrow> real \<Rightarrow> real \<Rightarrow> real \<Rightarrow> real \<Rightarrow> real \<Rightarrow> nat \<Rightarrow> nat \<Rightarrow> tok list \<Rightarrow> real
    \<Rightarrow> tok list \<times> real" where
  "shoutLoop cx cy outerRx outerRy innerRx innerRy points i path randomState =
    (if i < points * 2 then
       shoutLoop cx cy outerRx outerRy innerRx innerRy points (Suc i)
         (path @ shoutPoint cx cy outerRx outerRy innerRx innerRy points i
                   (fst (prng_random randomState)))
         (snd (prng_random randomState))
     else (path, randomState))"
  by pat_completeness auto
termination
  by (relation "measure (\<lambda>(cx, cy, orx, ory, irx, iry, points, i, path, randomState).
        points * 2 - i)") auto

definition shoutPath :: "real \<Rightarrow> real \<Rightarrow> real \<Rightarrow> tok list" where
  "shoutPath w h seed =
    (let points = 14;
         cx = w / 2;
         cy = h / 2;
         outerRx = w / 2;
         outerRy = h / 2;
         innerRx = w / 3.5;
         innerRy = h / 3.5;
         path = fst (shoutLoop cx cy outerRx outerRy innerRx innerRy points 0 [] seed)
     in path @ [Lit ''Z''])"

fun dotCircles :: "BubblePart list \<Rightarrow> Circle list" where
  "dotCircles [] = []"
| "dotCircles (ThoughtDot d # ps) =
    \<lparr>circ_id = dot_id d, circ_cx = offsetX d, circ_cy = offsetY d, circ_r = dot_size d / 2\<rparr>
      # dotCircles ps"
| "dotCircles (SpeechTail t # ps) = dotCircles ps"

subsection \<open>generateBubblePaths\<close>

definition generateBubblePaths :: "Bubble \<Rightarrow> BubblePaths" where
  "generateBubblePaths bubble =
    (let w = b_width bubble;
         h = b_height bubble;
         ty = b_type bubble;
         parts = b_parts bubble;
         r = (if ty = SpeechDown \<or> ty = SpeechUp \<or> ty = Whisper then min w h / 2
              else if ty = Descriptive then 5 else 20)
     in
      if ty = SpeechDown \<or> ty = SpeechUp \<or> ty = Whisper then
        (case findTail parts of
           Some tail \<Rightarrow> \<lparr>bodyPath = speechPath r w h tail, partsCircles = []\<rparr>
         | None \<Rightarrow> \<lparr>bodyPath = roundedRect r w h, partsCircles = []\<rparr>)
      else
        (let seed = seedOf bubble in
          case ty of
            Descriptive \<Rightarrow> \<lparr>bodyPath = roundedRect r w h, partsCircles = []\<rparr>
          | Thought \<Rightarrow> \<lparr>bodyPath = thoughtPath w h seed, partsCircles = dotCircles parts\<rparr>
          | Shout \<Rightarrow> \<lparr>bodyPath = shoutPath w h seed, partsCircles = []\<rparr>
          | _ \<Rightarrow> \<lparr>bodyPath = [], partsCircles = []\<rparr>))"

section \<open>Closed-form safe zone and font fitting (utils/textAutoFit.ts)\<close>

text \<open>\<open>SAFE_TEXT_ZONES\<close> is a table keyed by bubble type, each entry a pair
  \<open>(widthFactor, heightFactor)\<close>; a missing key would be \<open>None\<close>.\<close>

fun SAFE_TEXT_ZONES :: "BubbleType \<Rightarrow> (real \<times> real) option" where
  "SAFE_TEXT_ZONES Shout = Some (0.50, 0.775)"
| "SAFE_TEXT_ZONES Thought = Some (0.50, 0.825)"
| "SAFE_TEXT_ZONES SpeechDown = Some (0.83, 0.915)"
| "SAFE_TEXT_ZONES SpeechUp = Some (0.83, 0.915)"
| "SAFE_TEXT_ZONES Whisper = Some (0.80, 0.90)"
| "SAFE_TEXT_ZONES Descriptive = Some (0.90, 0.925)"
| "SAFE_TEXT_ZONES TextOnly = Some (0.95, 0.95)"

text \<open>The local variable \<open>reduction\<close> of \<open>getLineHeightOffset\<close>, before the cap, and the
  function, both in exact arithmetic; \<open>measureText\<close> below adds this gap to the font size.
  The function as binary64 evaluates it is \<open>getLineHeightOffset64\<close>, further down.\<close>

definition lineHeightReduction :: "real \<Rightarrow> real" where
  "lineHeightReduction sz =
    (if sz < 10 then 0.2 + (sz - 5) * 0.02 else 0.3 + (sz - 10) * 0.01)"

definition getLineHeightOffset :: "real \<Rightarrow> real" where
  "getLineHeightOffset sz = sz * (1 - min 0.8 (lineHeightReduction sz))"

record TextBounds =
  tb_width :: real
  tb_height :: real
  tb_x :: real
  tb_y :: real

definition getTextBounds :: "Bubble \<Rightarrow> TextBounds" where
  "getTextBounds bubble =
    (let safeZone = (case SAFE_TEXT_ZONES (b_type bubble) of
                       Some z \<Rightarrow> z | None \<Rightarrow> (0.80, 0.75));
         width = b_width bubble * fst safeZone;
         height = b_height bubble * snd safeZone;
         x = (b_width bubble - width) / 2;
         y = (b_height bubble - height) / 2
     in \<lparr>tb_width = width, tb_height = height, tb_x = x, tb_y = y\<rparr>)"

subsection \<open>Measuring the wrapped plain text\<close>

text \<open>
  The canvas is the host's: \<open>None\<close> when \<open>getContext('2d')\<close> gives no context,
  otherwise the width \<open>ctx.measureText(s).width\<close> as a function of the font size, the
  font family and the string.  \<open>Math.max\<close> of no arguments is minus infinity, which
  the reals do not have, so a measured width is an \<open>extent\<close>.
\<close>

type_synonym canvas = "(real \<Rightarrow> string \<Rightarrow> string \<Rightarrow> real) option"

datatype extent = MinusInfinity | Finite real

fun extent_le :: "extent \<Rightarrow> real \<Rightarrow> bool" where
  "extent_le MinusInfinity b = True"
| "extent_le (Finite a) b = (a \<le> b)"

fun Math_max :: "real list \<Rightarrow> extent" where
  "Math_max [] = MinusInfinity"
| "Math_max (v # vs) = (case Math_max vs of MinusInfinity \<Rightarrow> Finite v | Finite m \<Rightarrow> Finite (max v m))"

record Dimensions =
  dim_width :: extent
  dim_height :: real
  dim_lines :: nat

text \<open>\<open>text.replace(/<[^>]*>/g, '')\<close>: from each \<open><\<close> that has a \<open>>\<close> somewhere after it,
  everything up to the first such \<open>>\<close> is removed.\<close>

function stripTags :: "string \<Rightarrow> string" where
  "stripTags [] = []"
| "stripTags (c # cs) =
    (if c = CHR ''<'' \<and> CHR ''>'' \<in> set cs
     then stripTags (tl (dropWhile (\<lambda>d. d \<noteq> CHR ''>'') cs))
     else c # stripTags cs)"
  by pat_completeness auto
termination
proof (relation "measure length")
  show "wf (measure length)" by simp
next
  fix c :: char and cs :: string
  have "length (dropWhile (\<lambda>d. d \<noteq> CHR ''>'') cs) \<le> length cs"
    by (rule length_dropWhile_le)
  then have "length (tl (dropWhile (\<lambda>d. d \<noteq> CHR ''>'') cs)) \<le> length cs"
    by simp
  then show "(tl (dropWhile (\<lambda>d. d \<noteq> CHR ''>'') cs), c # cs) \<in> measure length"
    by simp
next
  fix c :: char and cs :: string
  show "(cs, c # cs) \<in> measure length" by simp
qed

text \<open>White space as \<open>\s\<close> matches it among the characters below U+0100: space, tab, line
  feed, vertical tab, form feed, carriage return and the no-break space U+00A0.\<close>

definition isSpace :: "char \<Rightarrow> bool" where
  "isSpace c =
    (c \<in> set [CHR '' '', CHR 0x09, CHR 0x0A, CHR 0x0B, CHR 0x0C, CHR 0x0D, CHR 0xA0])"

text \<open>\<open>plainText.split(/\s+/)\<close>: the pieces between maximal runs of white space; a run at
  either end leaves an empty first or last piece, and the empty string gives one empty piece.\<close>

function splitSpaces :: "string \<Rightarrow> string list" where
  "splitSpaces [] = [[]]"
| "splitSpaces (c # cs) =
    (if isSpace c then [] # splitSpaces (dropWhile isSpace cs)
     else (case splitSpaces cs of [] \<Rightarrow> [[c]] | word # rest \<Rightarrow> (c # word) # rest))"
  by pat_completeness auto
termination
proof (relation "measure length")
  show "wf (measure length)" by simp
next
  fix c :: char and cs :: string
  have "length (dropWhile isSpace cs) \<le> length cs"
    by (rule length_dropWhile_le)
  then show "(dropWhile isSpace cs, c # cs) \<in> measure length"
    by simp
next
  fix c :: char and cs :: string
  show "(cs, c # cs) \<in> measure length" by simp
qed

text \<open>The \<open>for (const word of words)\<close> loop; a string is truthy when it is not empty.\<close>

primrec wrapWords ::
  "(string \<Rightarrow> real) \<Rightarrow> real \<Rightarrow> string list \<Rightarrow> string list \<Rightarrow> string \<Rightarrow> string list \<times> string" where
  "wrapWords width_of maxWidth [] = (\<lambda>lines currentLine. (lines, currentLine))"
| "wrapWords width_of maxWidth (word # words) = (\<lambda>lines currentLine.
    (let testLine = (if currentLine \<noteq> [] then currentLine @ '' '' @ word else word) in
      if width_of testLine > maxWidth \<and> currentLine \<noteq> []
      then wrapWords width_of maxWidth words (lines @ [currentLine]) word
      else wrapWords width_of maxWidth words lines testLine))"

definition measureText :: "canvas \<Rightarrow> string \<Rightarrow> string \<Rightarrow> real \<Rightarrow> real \<Rightarrow> Dimensions" where
  "measureText ctx txt fontFamily fontSize maxWidth =
    (case ctx of
       None \<Rightarrow> \<lparr>dim_width = Finite maxWidth, dim_height = fontSize * 1.4, dim_lines = 1\<rparr>
     | Some measure_width \<Rightarrow>
        (let width_of = measure_width fontSize fontFamily;
             plainText = stripTags txt;
             words = splitSpaces plainText;
             wrapped = wrapWords width_of maxWidth words [] [];
             lines = (if snd wrapped \<noteq> [] then fst wrapped @ [snd wrapped] else fst wrapped);
             lineHeight = fontSize + getLineHeightOffset fontSize;
             totalHeight = real (length lines) * lineHeight;
             maxLineWidth = Math_max (map width_of lines)
         in \<lparr>dim_width = maxLineWidth, dim_height = totalHeight, dim_lines = length lines\<rparr>))"

subsection \<open>calculateOptimalFontSize\<close>

record TextFitResult =
  fit_fontSize :: real
  fit_textWidth :: extent
  fit_textHeight :: real
  fit_fits :: bool
  fit_scaleFactor :: real

text \<open>
  The \<open>while\<close> loop.  \<open>measure_at\<close> is \<open>measureText(text, fontFamily, \<cdot>, textBounds.width)\<close>;
  the loop gives \<open>Some\<close> of the result it returns from inside, and \<open>None\<close> when it
  runs out (the guard fails).
\<close>

function fitLoop ::
  "(real \<Rightarrow> Dimensions) \<Rightarrow> TextBounds \<Rightarrow> real \<Rightarrow> real \<Rightarrow> real \<Rightarrow> nat \<Rightarrow> TextFitResult option" where
  "fitLoop measure_at textBounds minFontSize targetFontSize fontSize iterations =
    (if fontSize \<ge> minFontSize \<and> iterations < 20 then
       (let dimensions = measure_at fontSize in
         if dim_height dimensions \<le> tb_height textBounds
            \<and> extent_le (dim_width dimensions) (tb_width textBounds)
         then Some \<lparr>fit_fontSize = fontSize,
                     fit_textWidth = dim_width dimensions,
                     fit_textHeight = dim_height dimensions,
                     fit_fits = True,
                     fit_scaleFactor = fontSize / targetFontSize\<rparr>
         else fitLoop measure_at textBounds minFontSize targetFontSize
                (max minFontSize (fontSize - 1)) (Suc iterations))
     else None)"
  by pat_completeness auto
termination
  by (relation "measure (\<lambda>(m, tb, mn, tg, fs, iterations). 20 - iterations)") auto

definition fitFallback ::
  "(real \<Rightarrow> Dimensions) \<Rightarrow> TextBounds \<Rightarrow> real \<Rightarrow> real \<Rightarrow> TextFitResult" where
  "fitFallback measure_at textBounds minFontSize targetFontSize =
    (let dimensions = measure_at minFontSize in
      \<lparr>fit_fontSize = minFontSize,
       fit_textWidth = dim_width dimensions,
       fit_textHeight = dim_height dimensions,
       fit_fits = (dim_height dimensions \<le> tb_height textBounds),
       fit_scaleFactor = minFontSize / targetFontSize\<rparr>)"

definition calculateOptimalFontSize ::
  "canvas \<Rightarrow> string \<Rightarrow> Bubble \<Rightarrow> string \<Rightarrow> real \<Rightarrow> real \<Rightarrow> TextFitResult" where
  "calculateOptimalFontSize ctx txt bubble fontFamily minFontSize maxFontSize =
    (let textBounds = getTextBounds bubble;
         targetFontSize = b_fontSize bubble;
         measure_at = (\<lambda>fontSize. measureText ctx txt fontFamily fontSize (tb_width textBounds))
     in case fitLoop measure_at textBounds minFontSize targetFontSize
               (min targetFontSize maxFontSize) 0 of
          Some result \<Rightarrow> result
        | None \<Rightarrow> fitFallback measure_at textBounds minFontSize targetFontSize)"

text \<open>\<open>autoFitBubbleText\<close> calls with the default arguments \<open>minFontSize = 8\<close> and
  \<open>maxFontSize = 40\<close>.\<close>

definition autoFitBubbleText :: "canvas \<Rightarrow> Bubble \<Rightarrow> string \<Rightarrow> Bubble" where
  "autoFitBubbleText ctx bubble fontFamily =
    (if b_type bubble = TextOnly \<or> b_text bubble = [] \<or> b_text bubble = ''Votre texte ici''
     then bubble
     else
      (let result = calculateOptimalFontSize ctx (b_text bubble) bubble fontFamily 8 40 in
        if fit_fontSize result = b_fontSize bubble then bubble
        else bubble\<lparr>b_fontSize := fit_fontSize result\<rparr>))"

subsection \<open>The line gap in binary64\<close>

text \<open>
  A double is a real number \<open>n * 2 ^ e\<close> with \<open>n\<close> an integer of at most 53 bits.
  \<open>fl64\<close> rounds a real to the nearest double, ties to the even mantissa, as every
  arithmetic operation and every decimal literal of the source does: \<open>normalize53\<close>
  scales the magnitude into \<open>[2 ^ 52, 2 ^ 53)\<close>, counting the exponent, and
  \<open>roundHalfEven\<close> rounds the scaled magnitude to an integer.  The exponent is not
  bounded: overflow and subnormal numbers are not modelled, and the sizes considered
  stay far from both.
\<close>

definition roundHalfEven :: "real \<Rightarrow> int" where
  "roundHalfEven v =
    (let f = \<lfloor>v\<rfloor>; d = v - of_int f
     in if d < 1 / 2 then f else if 1 / 2 < d then f + 1 else if even f then f else f + 1)"

primrec normalize53 :: "nat \<Rightarrow> real \<Rightarrow> int \<Rightarrow> real \<times> int" where
  "normalize53 0 = (\<lambda>m e. (m, e))"
| "normalize53 (Suc fuel) = (\<lambda>m e.
    (if m < 2 ^ 52 then normalize53 fuel (m * 2) (e - 1)
     else if 2 ^ 53 \<le> m then normalize53 fuel (m / 2) (e + 1)
     else (m, e)))"

definition pow2 :: "int \<Rightarrow> real" where
  "pow2 e = (if 0 \<le> e then 2 ^ nat e else 1 / 2 ^ nat (- e))"

definition fl64 :: "real \<Rightarrow> real" where
  "fl64 v =
    (if v = 0 then 0
     else (let me = normalize53 1100 \<bar>v\<bar> 0
           in sgn v * of_int (roundHalfEven (fst me)) * pow2 (snd me)))"


text \<open>The roundings worked out below are collected under one name.\<close>

named_theorems fl64_table

section \<open>Per-row safe zone by sampling the outline (utils/textBoundsCalculator.ts)\<close>

text \<open>
  The geometry of a path is the browser's: \<open>getTotalLength\<close> and \<open>getPointAtLength\<close> of
  the \<open>SVGPathElement\<close> built from the outline are parameters of the model.
\<close>

record SvgHost =
  getTotalLength :: "tok list \<Rightarrow> real"
  getPointAtLength :: "tok list \<Rightarrow> real \<Rightarrow> real \<times> real"

text \<open>The loop of \<open>findIntersectionsAtY\<close>, \<open>i\<close> from 0 to \<open>precision\<close> inclusive, with its
  three loop variables.\<close>

function intersectLoop ::
  "SvgHost \<Rightarrow> tok list \<Rightarrow> real \<Rightarrow> real \<Rightarrow> nat \<Rightarrow> nat \<Rightarrow> bool \<Rightarrow> (real \<times> real) option
    \<Rightarrow> real list \<Rightarrow> real list" where
  "intersectLoop host path targetY pathLength precision i wasAbove lastPoint intersections =
    (if i \<le> precision then
       (let distance = (real i / real precision) * pathLength;
            point = getPointAtLength host path distance
        in case lastPoint of
             Some lp \<Rightarrow>
               (let isAbove = (snd point < targetY) in
                 intersectLoop host path targetY pathLength precision (Suc i) isAbove (Some point)
                   (if wasAbove \<noteq> isAbove
                    then intersections
                           @ [fst lp + ((targetY - snd lp) / (snd point - snd lp))
                                        * (fst point - fst lp)]
                    else intersections))
           | None \<Rightarrow>
               intersectLoop host path targetY pathLength precision (Suc i)
                 (snd point < targetY) (Some point) intersections)
     else intersections)"
  by pat_completeness auto
termination
  by (relation "measure (\<lambda>(host, path, targetY, pathLength, precision, i, wasAbove, lastPoint,
        intersections). Suc precision - i)") auto

definition findIntersectionsAtY :: "SvgHost \<Rightarrow> tok list \<Rightarrow> real \<Rightarrow> real \<Rightarrow> real list" where
  "findIntersectionsAtY host path targetY pathLength =
    intersectLoop host path targetY pathLength 100 0 False None []"

definition sampleRow :: "SvgHost \<Rightarrow> tok list \<Rightarrow> real \<Rightarrow> nat \<Rightarrow> real \<Rightarrow> nat \<Rightarrow> real" where
  "sampleRow host pathString totalHeight numSamples pathLength i =
    (let y = (real i / (real numSamples - 1)) * totalHeight;
         intersections = findIntersectionsAtY host pathString y pathLength
     in if length intersections \<ge> 2 then
          (let minX = Min (set intersections);
               maxX = Max (set intersections);
               availableWidth = maxX - minX
           in availableWidth * 0.70)
        else totalHeight * 0.5)"

definition samplePathAtYPositions :: "SvgHost \<Rightarrow> tok list \<Rightarrow> real \<Rightarrow> nat \<Rightarrow> real list" where
  "samplePathAtYPositions host pathString totalHeight numSamples =
    (let pathLength = getTotalLength host pathString
     in map (sampleRow host pathString totalHeight numSamples pathLength) [0..<numSamples])"

text \<open>
  The function \<open>calculateTextBounds\<close> returns is applied to \<open>y\<close> at once.  Its result is
  \<open>None\<close> where the source reads \<open>samples[NaN]\<close>, which is \<open>undefined\<close>: the height is 0
  and \<open>y\<close> is 0.  With height 0 and another \<open>y\<close> the index is infinite and the default
  \<open>width * 0.5\<close> is returned.
\<close>

definition calculateTextBounds :: "SvgHost \<Rightarrow> Bubble \<Rightarrow> real \<Rightarrow> real option" where
  "calculateTextBounds host bubble y =
    (let width = b_width bubble;
         height = b_height bubble;
         ty = b_type bubble
     in if ty = Descriptive \<or> ty = TextOnly then Some (width * 0.92)
        else
         (let samples = samplePathAtYPositions host (bodyPath (generateBubblePaths bubble)) height 20
          in if height = 0 then (if y = 0 then None else Some (width * 0.5))
             else
              (let relativeY = y / height;
                   sampleIndex = \<lfloor>relativeY * (real (length samples) - 1)\<rfloor>
               in if sampleIndex < 0 \<or> sampleIndex \<ge> int (length samples)
                  then Some (width * 0.5)
                  else Some (samples ! nat sampleIndex))))"

section \<open>Pointer interaction (components/BubbleItem.tsx, handleMouseMove)\<close>

datatype InteractionMode = Move | Resize | MovePart | MoveTailTip | MoveTailBase

text \<open>
  The snapshot taken at pointer-down.  The optional numbers are set there for the mode
  that reads them, so they are plain fields; \<open>initialParts\<close> is set for a resize only.
\<close>

record Interaction =
  i_mode :: "InteractionMode option"
  activeHandle :: "string option"
  activePartId :: "string option"
  startX :: real
  startY :: real
  initialBubbleX :: real
  initialBubbleY :: real
  initialBubbleWidth :: real
  initialBubbleHeight :: real
  initialPartOffsetX :: real
  initialPartOffsetY :: real
  initialTipX :: real
  initialTipY :: real
  initialBaseCX :: real
  initialBaseCY :: real
  initialParts :: "BubblePart list option"

text \<open>\<open>interaction.activeHandle?.includes('l')\<close>\<close>

definition handleIncludes :: "string option \<Rightarrow> char \<Rightarrow> bool" where
  "handleIncludes handle c = (case handle of None \<Rightarrow> False | Some s \<Rightarrow> c \<in> set s)"

fun part_id :: "BubblePart \<Rightarrow> string" where
  "part_id (SpeechTail t) = tail_id t"
| "part_id (ThoughtDot d) = dot_id d"

fun findIndex :: "('a \<Rightarrow> bool) \<Rightarrow> 'a list \<Rightarrow> nat option" where
  "findIndex P [] = None"
| "findIndex P (v # vs) = (if P v then Some 0 else map_option Suc (findIndex P vs))"

text \<open>The body of \<open>origParts.map\<close> in the resize case.\<close>

fun resizePart :: "real \<Rightarrow> real \<Rightarrow> real \<Rightarrow> real \<Rightarrow> BubblePart \<Rightarrow> BubblePart" where
  "resizePart origW origH newWidth newHeight (SpeechTail partOrig) =
    (let scaleX = newWidth / origW;
         scaleY = newHeight / origH;
         eps = 0.0001;
         anchoredBottom = (\<bar>baseCY partOrig - origH\<bar> < eps);
         anchoredTop = (\<bar>baseCY partOrig\<bar> < eps);
         anchoredRight = (\<bar>baseCX partOrig - origW\<bar> < eps);
         anchoredLeft = (\<bar>baseCX partOrig\<bar> < eps);
         newBaseCX = (if anchoredRight then newWidth
                      else if anchoredLeft then 0
                      else max 0 (min newWidth (baseCX partOrig * scaleX)));
         newBaseCY = (if anchoredBottom then newHeight
                      else if anchoredTop then 0
                      else max 0 (min newHeight (baseCY partOrig * scaleY)));
         dx = tipX partOrig - baseCX partOrig;
         dy = tipY partOrig - baseCY partOrig
     in SpeechTail (partOrig\<lparr>
          baseCX := newBaseCX,
          baseCY := newBaseCY,
          tipX := newBaseCX + dx * scaleX,
          tipY := newBaseCY + dy * scaleY,
          baseWidth := max 1 (baseWidth partOrig * scaleX),
          initialBaseWidth := max 1 (initialBaseWidth partOrig * scaleX)\<rparr>))"
| "resizePart origW origH newWidth newHeight (ThoughtDot partOrig) =
    (let scaleX = newWidth / origW;
         scaleY = newHeight / origH
     in ThoughtDot (partOrig\<lparr>
          offsetX := max 0 (min newWidth ((offsetX partOrig / origW) * newWidth)),
          offsetY := max 0 (min newHeight ((offsetY partOrig / origH) * newHeight)),
          dot_size := max 2 (dot_size partOrig * ((scaleX + scaleY) / 2))\<rparr>))"

definition resizeBubble :: "Interaction \<Rightarrow> Bubble \<Rightarrow> real \<Rightarrow> real \<Rightarrow> Bubble" where
  "resizeBubble interaction bubble deltaX deltaY =
    (let hasL = handleIncludes (activeHandle interaction) CHR ''l'';
         hasR = handleIncludes (activeHandle interaction) CHR ''r'';
         hasT = handleIncludes (activeHandle interaction) CHR ''t'';
         hasB = handleIncludes (activeHandle interaction) CHR ''b'';
         dw = (if hasR then deltaX else if hasL then - deltaX else 0);
         dh = (if hasB then deltaY else if hasT then - deltaY else 0);
         newWidth = max MIN_BUBBLE_WIDTH (initialBubbleWidth interaction + dw);
         newHeight = max MIN_BUBBLE_HEIGHT (initialBubbleHeight interaction + dh);
         newX = (if hasL then initialBubbleX interaction + deltaX else initialBubbleX interaction);
         newY = (if hasT then initialBubbleY interaction + deltaY else initialBubbleY interaction);
         origW = initialBubbleWidth interaction;
         origH = initialBubbleHeight interaction;
         origParts = (case initialParts interaction of Some ps \<Rightarrow> ps | None \<Rightarrow> b_parts bubble)
     in bubble\<lparr>b_width := newWidth, b_height := newHeight, b_x := newX, b_y := newY,
               b_parts := map (resizePart origW origH newWidth newHeight) origParts\<rparr>)"

definition moveTailBase :: "Interaction \<Rightarrow> real \<Rightarrow> real \<Rightarrow> real \<Rightarrow> real \<Rightarrow> SpeechTailPart
    \<Rightarrow> SpeechTailPart" where
  "moveTailBase interaction w h deltaX deltaY part =
    (let localMouseX = initialBaseCX interaction + deltaX;
         localMouseY = initialBaseCY interaction + deltaY;
         dx = localMouseX - w / 2;
         dy = localMouseY - h / 2;
         initBaseCX = initialBaseCX interaction;
         initBaseCY = initialBaseCY interaction;
         eps = 0.001;
         anchoredBottom = (\<bar>initBaseCY - h\<bar> < eps);
         anchoredTop = (\<bar>initBaseCY\<bar> < eps);
         anchoredRight = (\<bar>initBaseCX - w\<bar> < eps);
         anchoredLeft = (\<bar>initBaseCX\<bar> < eps);
         base = (if anchoredBottom \<or> anchoredTop then
                   (max 0 (min w localMouseX), if anchoredBottom then h else 0)
                 else if anchoredLeft \<or> anchoredRight then
                   (if anchoredRight then w else 0, max 0 (min h localMouseY))
                 else if \<bar>dx / w\<bar> > \<bar>dy / h\<bar> then
                   (if dx > 0 then w else 0,
                    h / 2 + dy * (w / (2 * \<bar>if dx = 0 then 1 else dx\<bar>)))
                 else
                   (w / 2 + dx * (h / (2 * \<bar>if dy = 0 then 1 else dy\<bar>)),
                    if dy > 0 then h else 0));
         relDX = initialTipX interaction - initBaseCX;
         relDY = initialTipY interaction - initBaseCY
     in part\<lparr>tipX := fst base + relDX,
              tipY := snd base + relDY,
              baseCX := max 0 (min (fst base) w),
              baseCY := max 0 (min (snd base) h)\<rparr>)"

text \<open>\<open>handleMouseMove\<close>: the bubble handed to \<open>onUpdate\<close> for a pointer at
  \<open>(clientX, clientY)\<close>.\<close>

definition handleMouseMove :: "Interaction \<Rightarrow> Bubble \<Rightarrow> real \<Rightarrow> real \<Rightarrow> Bubble" where
  "handleMouseMove interaction bubble clientX clientY =
    (let deltaX = clientX - startX interaction;
         deltaY = clientY - startY interaction;
         partIndex = findIndex (\<lambda>p. Some (part_id p) = activePartId interaction) (b_parts bubble)
     in case i_mode interaction of
          None \<Rightarrow> bubble
        | Some Move \<Rightarrow>
            bubble\<lparr>b_x := initialBubbleX interaction + deltaX,
                   b_y := initialBubbleY interaction + deltaY\<rparr>
        | Some Resize \<Rightarrow> resizeBubble interaction bubble deltaX deltaY
        | Some MovePart \<Rightarrow>
            (case partIndex of
               None \<Rightarrow> bubble
             | Some k \<Rightarrow>
                (case b_parts bubble ! k of
                   ThoughtDot part \<Rightarrow>
                     bubble\<lparr>b_parts := (b_parts bubble)
                       [k := ThoughtDot (part\<lparr>
                          offsetX := initialPartOffsetX interaction + deltaX,
                          offsetY := initialPartOffsetY interaction + deltaY\<rparr>)]\<rparr>
                 | SpeechTail part \<Rightarrow> bubble))
        | Some MoveTailTip \<Rightarrow>
            (case partIndex of
               None \<Rightarrow> bubble
             | Some k \<Rightarrow>
                (case b_parts bubble ! k of
                   SpeechTail part \<Rightarrow>
                     bubble\<lparr>b_parts := (b_parts bubble)
                       [k := SpeechTail (part\<lparr>
                          tipX := initialTipX interaction + deltaX,
                          tipY := initialTipY interaction + deltaY\<rparr>)]\<rparr>
                 | ThoughtDot part \<Rightarrow> bubble))
        | Some MoveTailBase \<Rightarrow>
            (case partIndex of
               None \<Rightarrow> bubble
             | Some k \<Rightarrow>
                (case b_parts bubble ! k of
                   SpeechTail part \<Rightarrow>
                     bubble\<lparr>b_parts := (b_parts bubble)
                       [k := SpeechTail (moveTailBase interaction (b_width bubble) (b_height bubble)
                                            deltaX deltaY part)]\<rparr>
                 | ThoughtDot part \<Rightarrow> bubble)))"

section \<open>Reading an outline back\<close>

text \<open>
  The commands of an outline: each command letter with the numbers that follow it, the
  interpolated ones and the literal digits 0 and 1 of the templates alike.  The
  quadratic curves are the \<open>Q\<close> commands, each with its control point and its end point.
\<close>

datatype sym = Ch char | Nm real

fun tok_syms :: "tok \<Rightarrow> sym list" where
  "tok_syms (Lit s) = map Ch s"
| "tok_syms (Num v) = [Nm v]"

fun sym_step :: "sym \<Rightarrow> real list \<times> (char \<times> real list) list
    \<Rightarrow> real list \<times> (char \<times> real list) list" where
  "sym_step (Nm v) (ns, cs) = (v # ns, cs)"
| "sym_step (Ch c) (ns, cs) =
    (if c \<in> set ''MLAQZ'' then ([], (c, ns) # cs)
     else if c = CHR ''0'' then (0 # ns, cs)
     else if c = CHR ''1'' then (1 # ns, cs)
     else (ns, cs))"

definition commands :: "tok list \<Rightarrow> (char \<times> real list) list" where
  "commands p = snd (foldr sym_step (concat (map tok_syms p)) ([], []))"

definition quadCurves :: "tok list \<Rightarrow> real list list" where
  "quadCurves p = map snd (filter (\<lambda>cmd. fst cmd = CHR ''Q'') (commands p))"

section \<open>Predicates and examples used in the statements\<close>

text \<open>The test of the \<open>while\<close> loop of \<open>calculateOptimalFontSize\<close> and the record it
  returns from inside the loop, named.\<close>

definition fitsAt :: "(real \<Rightarrow> Dimensions) \<Rightarrow> TextBounds \<Rightarrow> real \<Rightarrow> bool" where
  "fitsAt measure_at textBounds fontSize =
    (dim_height (measure_at fontSize) \<le> tb_height textBounds
     \<and> extent_le (dim_width (measure_at fontSize)) (tb_width textBounds))"

definition fitResult :: "(real \<Rightarrow> Dimensions) \<Rightarrow> real \<Rightarrow> real \<Rightarrow> TextFitResult" where
  "fitResult measure_at targetFontSize fontSize =
    \<lparr>fit_fontSize = fontSize,
     fit_textWidth = dim_width (measure_at fontSize),
     fit_textHeight = dim_height (measure_at fontSize),
     fit_fits = True,
     fit_scaleFactor = fontSize / targetFontSize\<rparr>"







definition monoCanvas :: canvas where
  "monoCanvas = Some (\<lambda>fontSize fontFamily s. fontSize * 0.6 * real (length s))"

definition longWordBubble :: Bubble where
  "longWordBubble =
    \<lparr>b_id = ''bubble-1'', b_type = SpeechDown, b_text = ''Anticonstitutionnellement'',
     b_x = 0, b_y = 0, b_width = 100, b_height = 60, b_fontFamily = Comic, b_fontSize = 12,
     b_textColor = ''#000000'', b_borderColor = ''#000000'', b_zIndex = 1, b_parts = [],
     b_shapeVariant = None\<rparr>"



definition textOnlyBubble :: Bubble where
  "textOnlyBubble =
    \<lparr>b_id = ''bubble-2'', b_type = TextOnly, b_text = ''Bonjour tout le monde'',
     b_x = 5, b_y = 5, b_width = 60, b_height = 30, b_fontFamily = Arial, b_fontSize = 40,
     b_textColor = ''#000000'', b_borderColor = ''#000000'', b_zIndex = 2, b_parts = [],
     b_shapeVariant = None\<rparr>"

text \<open>A thought bubble, 50 wide and 200 high, with two dots.\<close>

definition thoughtBubble :: Bubble where
  "thoughtBubble =
    \<lparr>b_id = ''bubble-3'', b_type = Thought, b_text = ''Hmm'',
     b_x = 10, b_y = 20, b_width = 50, b_height = 200, b_fontFamily = Indie, b_fontSize = 16,
     b_textColor = ''#000000'', b_borderColor = ''#000000'', b_zIndex = 3,
     b_parts = [ThoughtDot \<lparr>dot_id = ''part-1'', offsetX = 25, offsetY = 215, dot_size = 15\<rparr>,
                ThoughtDot \<lparr>dot_id = ''part-2'', offsetX = 25, offsetY = 232, dot_size = 10\<rparr>],
     b_shapeVariant = Some 2\<rparr>"

text \<open>The speech bubble of the specification's scenario: 150 by 90, the tail on the bottom
  edge at \<open>(75, 90)\<close>, base width 20, tip at \<open>(75, 120)\<close>.\<close>

definition bottomTail :: SpeechTailPart where
  "bottomTail =
    \<lparr>tail_id = ''part-4'', baseCX = 75, baseCY = 90, baseWidth = 20, tipX = 75, tipY = 120,
     initialLength = 30, initialBaseWidth = 20\<rparr>"

definition speechBubble :: Bubble where
  "speechBubble =
    \<lparr>b_id = ''bubble-4'', b_type = SpeechDown, b_text = ''Votre texte ici'',
     b_x = 100, b_y = 100, b_width = 150, b_height = 90, b_fontFamily = Comic, b_fontSize = 16,
     b_textColor = ''#000000'', b_borderColor = ''#000000'', b_zIndex = 4,
     b_parts = [SpeechTail bottomTail], b_shapeVariant = None\<rparr>"

text \<open>A resize by the bottom-right handle, started on \<open>speechBubble\<close> with the pointer at
  \<open>(250, 190)\<close>.\<close>

definition resizeGesture :: Interaction where
  "resizeGesture =
    \<lparr>i_mode = Some Resize, activeHandle = Some ''br'', activePartId = None,
     startX = 250, startY = 190, initialBubbleX = 100, initialBubbleY = 100,
     initialBubbleWidth = 150, initialBubbleHeight = 90,
     initialPartOffsetX = 0, initialPartOffsetY = 0, initialTipX = 0, initialTipY = 0,
     initialBaseCX = 0, initialBaseCY = 0, initialParts = Some [SpeechTail bottomTail]\<rparr>"

text \<open>The same bubble with the base of the tail 0.00005 above the bottom edge.\<close>

definition nearEdgeTail :: SpeechTailPart where
  "nearEdgeTail = bottomTail\<lparr>baseCY := 89.99995\<rparr>"

definition nearEdgeBubble :: Bubble where
  "nearEdgeBubble = speechBubble\<lparr>b_parts := [SpeechTail nearEdgeTail]\<rparr>"

text \<open>The same bubble with the tail on the right edge, base at \<open>(150, 45)\<close> and tip at
  \<open>(190, 45)\<close>, and with the base of the tail in the bottom-right corner \<open>(150, 90)\<close> and
  the tip at \<open>(170, 120)\<close>.\<close>

definition sideTail :: SpeechTailPart where
  "sideTail = bottomTail\<lparr>baseCX := 150, baseCY := 45, tipX := 190, tipY := 45\<rparr>"

definition sideBubble :: Bubble where
  "sideBubble = speechBubble\<lparr>b_parts := [SpeechTail sideTail]\<rparr>"

definition cornerTail :: SpeechTailPart where
  "cornerTail = bottomTail\<lparr>baseCX := 150, baseCY := 90, tipX := 170, tipY := 120\<rparr>"

definition cornerBubble :: Bubble where
  "cornerBubble = speechBubble\<lparr>b_parts := [SpeechTail cornerTail]\<rparr>"

text \<open>
  The two quadratic curves \<open>createTailPath\<close> writes, as the reading of an outline gives
  them: control point and end point of each.  The control point's \<open>x\<close> is a quarter of the
  way from the base point's \<open>x\<close> to the tip's; its \<open>y\<close> is half way between the clamped
  base centre's \<open>y\<close> and the tip's.
\<close>

definition tailCurves ::
  "real \<Rightarrow> real \<Rightarrow> real \<Rightarrow> real \<times> real \<Rightarrow> real \<times> real \<Rightarrow> real list list" where
  "tailCurves clampedBaseCY tX tY startPt endPt =
    [[fst startPt + (tX - fst startPt) * 0.25, clampedBaseCY + (tY - clampedBaseCY) * 0.5, tX, tY],
     [fst endPt + (tX - fst endPt) * 0.25, clampedBaseCY + (tY - clampedBaseCY) * 0.5,
      fst endPt, snd endPt]]"

text \<open>A base point is near an edge when it is within \<open>eps\<close> of 0 or of the width or
  height, as the resize code tests it.\<close>

definition nearEdge :: "real \<Rightarrow> real \<Rightarrow> real \<Rightarrow> SpeechTailPart \<Rightarrow> bool" where
  "nearEdge eps w h tail =
    (\<bar>baseCY tail - h\<bar> < eps \<or> \<bar>baseCY tail\<bar> < eps
     \<or> \<bar>baseCX tail - w\<bar> < eps \<or> \<bar>baseCX tail\<bar> < eps)"

text \<open>The commands \<open>createTailPath\<close> writes: a line to the first base-edge point, a
  curve to the tip, a curve to the second base-edge point.\<close>

definition tailCommands ::
  "real \<Rightarrow> real \<Rightarrow> real \<Rightarrow> real \<times> real \<Rightarrow> real \<times> real \<Rightarrow> (char \<times> real list) list" where
  "tailCommands clampedBaseCY tX tY startPt endPt =
    [(CHR ''L'', [fst startPt, snd startPt]),
     (CHR ''Q'', [fst startPt + (tX - fst startPt) * 0.25,
                  clampedBaseCY + (tY - clampedBaseCY) * 0.5, tX, tY]),
     (CHR ''Q'', [fst endPt + (tX - fst endPt) * 0.25,
                  clampedBaseCY + (tY - clampedBaseCY) * 0.5, fst endPt, snd endPt])]"

text \<open>The two points handed to \<open>createTailPath\<close>, in the order the outline visits them:
  the local variables \<open>leftBaseX\<close>, \<open>rightBaseX\<close>, \<open>topBaseY\<close> and \<open>bottomBaseY\<close> of the
  branch taken.  Each is the clamped base centre minus or plus half the base width,
  clamped again into the straight part of the edge, so the two need not lie half a base
  width on either side of the centre: they may coincide or come in the reverse order.\<close>

definition tailBasePoints ::
  "real \<Rightarrow> real \<Rightarrow> real \<Rightarrow> SpeechTailPart \<Rightarrow> (real \<times> real) \<times> (real \<times> real)" where
  "tailBasePoints r w h tail =
    (let halfBase = baseWidth tail / 2;
         cbx = max 0 (min w (baseCX tail));
         cby = max 0 (min h (baseCY tail))
     in if cby = h then ((min (w - r) (cbx + halfBase), h), (max r (cbx - halfBase), h))
        else if cby = 0 then ((max r (cbx - halfBase), 0), (min (w - r) (cbx + halfBase), 0))
        else if cbx = w then ((w, max r (cby - halfBase)), (w, min (h - r) (cby + halfBase)))
        else ((0, min (h - r) (cby + halfBase)), (0, max r (cby - halfBase))))"

text \<open>The quantities of the thought outline: the number of lobes drawn first from the
  generator, the bulge factor drawn for lobe \<open>i\<close>, the angle at which lobe \<open>i\<close> starts, and
  the control point and end point of lobe \<open>i\<close>.\<close>

definition thoughtLobes :: "real \<Rightarrow> nat" where
  "thoughtLobes seed = nat (\<lfloor>fst (prng_random seed) * 6\<rfloor> + 7)"

definition bulgeFactorOf :: "real \<Rightarrow> nat \<Rightarrow> real" where
  "bulgeFactorOf seed i = 1.3 + fst (prng_random (seed + 1 + real i)) * 0.3"

definition lobeAngle :: "nat \<Rightarrow> nat \<Rightarrow> real" where
  "lobeAngle lobes i = (real i / real lobes) * pi * 2 - pi / 2"

definition lobeCurve :: "real \<Rightarrow> real \<Rightarrow> real \<Rightarrow> real \<Rightarrow> nat \<Rightarrow> nat \<Rightarrow> real \<Rightarrow> real list" where
  "lobeCurve cx cy rx ry lobes i bulgeFactor =
    [cx + rx * bulgeFactor * cos ((lobeAngle lobes i + lobeAngle lobes (i + 1)) / 2),
     cy + ry * bulgeFactor * sin ((lobeAngle lobes i + lobeAngle lobes (i + 1)) / 2),
     cx + rx * cos (lobeAngle lobes (i + 1)),
     cy + ry * sin (lobeAngle lobes (i + 1))]"

definition lobeCommands :: "real \<Rightarrow> real \<Rightarrow> real \<Rightarrow> real \<Rightarrow> nat \<Rightarrow> nat \<Rightarrow> real
    \<Rightarrow> (char \<times> real list) list" where
  "lobeCommands cx cy rx ry n i f =
    (if i = 0 then [(CHR ''M'', [cx + rx * cos (lobeAngle n 0), cy + ry * sin (lobeAngle n 0)])]
     else [])
    @ [(CHR ''Q'', lobeCurve cx cy rx ry n i f)]"

text \<open>A host whose path geometry is the ellipse of radii 0.30 times the width and the
  height about the centre of the box, the ellipse a thought outline is built around,
  measured by angle.\<close>

definition ellipseHost :: "real \<Rightarrow> real \<Rightarrow> SvgHost" where
  "ellipseHost w h =
    \<lparr>getTotalLength = (\<lambda>path. 2 * pi),
     getPointAtLength = (\<lambda>path d. (w / 2 + w * 0.30 * cos d, h / 2 + h * 0.30 * sin d))\<rparr>"

section \<open>Loops are unfolded by hand\<close>

declare fitLoop.simps [simp del]
declare thoughtLoop.simps [simp del] shoutLoop.simps [simp del] intersectLoop.simps [simp del]

section \<open>Shape synthesis is a function of the seed and the geometry\<close>

text \<open>
  Claim C1.  Two calls of \<open>generateBubblePaths\<close> on the same bubble give the same body path
  and the same auxiliary circles.  The outline is computed from the bubble alone: the
  generator is seeded from the id and the shape variant and threaded through the loops, and
  no other source of randomness enters.  Stated in the strong form: two bubbles that agree
  on id, shape variant, type, width, height and parts get the same result, whatever their
  other fields are, and so the same path string for every number formatting.
\<close>

theorem generateBubblePaths_deterministic:
  assumes "b_id b1 = b_id b2" and "b_shapeVariant b1 = b_shapeVariant b2"
    and "b_type b1 = b_type b2" and "b_width b1 = b_width b2"
    and "b_height b1 = b_height b2" and "b_parts b1 = b_parts b2"
  shows "generateBubblePaths b1 = generateBubblePaths b2
    \<and> render fmt (bodyPath (generateBubblePaths b1)) = render fmt (bodyPath (generateBubblePaths b2))
    \<and> partsCircles (generateBubblePaths b1) = partsCircles (generateBubblePaths b2)"
proof -
  have seed: "seedOf b1 = seedOf b2"
    unfolding seedOf_def assms ..
  have "generateBubblePaths b1 = generateBubblePaths b2"
    unfolding generateBubblePaths_def seed assms ..
  then show ?thesis by simp
qed

theorem generateBubblePaths_deterministic_witness:
  "b_id thoughtBubble = ''bubble-3'' \<and> b_shapeVariant thoughtBubble = Some 2
   \<and> generateBubblePaths thoughtBubble
     = generateBubblePaths (thoughtBubble\<lparr>b_text := ''Autre'', b_x := 300, b_y := 40, b_zIndex := 7\<rparr>)"
  using generateBubblePaths_deterministic
    [of thoughtBubble "thoughtBubble\<lparr>b_text := ''Autre'', b_x := 300, b_y := 40, b_zIndex := 7\<rparr>"]
  by (simp add: thoughtBubble_def)

section \<open>The line gap in binary64\<close>

text \<open>Scaling by \<open>2 ^ k\<close> into \<open>[2 ^ 52, 2 ^ 53)\<close> is what \<open>normalize53\<close> does to a magnitude
  below \<open>2 ^ 53\<close>, so a rounding is decided by the exponent \<open>k\<close> and the integer nearest the
  scaled value.\<close>

lemma normalize53_up:
  assumes "k \<le> fuel" and "2 ^ 52 \<le> m * 2 ^ k" and "m * 2 ^ k < 2 ^ 53"
  shows "normalize53 fuel m e = (m * 2 ^ k, e - int k)"
  using assms
proof (induction k arbitrary: fuel m e)
  case 0
  then show ?case by (cases fuel) simp_all
next
  case (Suc k)
  then obtain f where fuel: "fuel = Suc f" and kf: "k \<le> f"
    by (cases fuel) simp_all
  have pos: "0 < m"
  proof (rule ccontr)
    assume "\<not> 0 < m"
    then have "m * 2 ^ Suc k \<le> 0" by (simp add: mult_le_0_iff)
    then show False using Suc.prems(2) by (smt (verit) zero_less_power)
  qed
  have "m * 2 \<le> m * 2 ^ Suc k"
    using pos by simp
  then have small: "m < 2 ^ 52" using Suc.prems(3) by simp
  have "normalize53 f (m * 2) (e - 1) = (m * 2 * 2 ^ k, e - 1 - int k)"
    using Suc.IH [of f "m * 2" "e - 1"] kf Suc.prems(2,3) by (simp add: mult.assoc)
  then show ?case using small fuel by (simp add: mult.assoc)
qed

lemma fl64_up:
  assumes "0 < v" and "k \<le> 1100" and "2 ^ 52 \<le> v * 2 ^ k" and "v * 2 ^ k < 2 ^ 53"
    and "roundHalfEven (v * 2 ^ k) = n"
  shows "fl64 v = of_int n / 2 ^ k"
proof -
  have "normalize53 1100 \<bar>v\<bar> 0 = (v * 2 ^ k, 0 - int k)"
    using normalize53_up [of k 1100 v 0] assms by simp
  moreover have "pow2 (0 - int k) = 1 / 2 ^ k"
    by (cases k) (simp_all add: pow2_def nat_add_distrib)
  ultimately show ?thesis using assms(1,5) by (simp add: fl64_def Let_def)
qed


subsection \<open>The roundings\<close>

text \<open>Every rounding met when \<open>getLineHeightOffset64\<close> is evaluated at the integer sizes
  from 5 to 60, at 100 and at the double that follows 21, each with its exponent and its
  rounded mantissa.  The literals are \<open>0.2\<close>, \<open>0.02\<close>, \<open>0.3\<close>, \<open>0.01\<close> and \<open>0.8\<close>; the double
  nearest \<open>0.8\<close> is above it, and 1 minus that double is \<open>0.19999999999999996\<close>.\<close>

lemma fl64_r1 [fl64_table]: "fl64 (1 / 5) = 3602879701896397 / 18014398509481984"
  using fl64_up [of "1 / 5" 55 7205759403792794] by (simp add: roundHalfEven_def Let_def)

lemma fl64_r2 [fl64_table]: "fl64 (1 / 50) = 5764607523034235 / 288230376151711744"
  using fl64_up [of "1 / 50" 58 5764607523034235] by (simp add: roundHalfEven_def Let_def)

lemma fl64_r3 [fl64_table]: "fl64 (3602879701896397 / 18014398509481984) = 3602879701896397 / 18014398509481984"
  using fl64_up [of "3602879701896397 / 18014398509481984" 55 7205759403792794] by (simp add: roundHalfEven_def Let_def)

lemma fl64_r4 [fl64_table]: "fl64 (4 / 5) = 3602879701896397 / 4503599627370496"
  using fl64_up [of "4 / 5" 53 7205759403792794] by (simp add: roundHalfEven_def Let_def)

lemma fl64_r5 [fl64_table]: "fl64 (14411518807585587 / 18014398509481984) = 3602879701896397 / 4503599627370496"
  using fl64_up [of "14411518807585587 / 18014398509481984" 53 7205759403792794] by (simp add: roundHalfEven_def Let_def)

lemma fl64_r6 [fl64_table]: "fl64 (18014398509481985 / 4503599627370496) = 4"
  using fl64_up [of "18014398509481985 / 4503599627370496" 50 4503599627370496] by (simp add: roundHalfEven_def Let_def)

lemma fl64_r7 [fl64_table]: "fl64 (1) = 1"
  using fl64_up [of "1" 52 4503599627370496] by (simp add: roundHalfEven_def Let_def)

lemma fl64_r8 [fl64_table]: "fl64 (5764607523034235 / 288230376151711744) = 5764607523034235 / 288230376151711744"
  using fl64_up [of "5764607523034235 / 288230376151711744" 58 5764607523034235] by (simp add: roundHalfEven_def Let_def)

lemma fl64_r9 [fl64_table]: "fl64 (63410682753376587 / 288230376151711744) = 7926335344172073 / 36028797018963968"
  using fl64_up [of "63410682753376587 / 288230376151711744" 55 7926335344172073] by (simp add: roundHalfEven_def Let_def)

lemma fl64_r10 [fl64_table]: "fl64 (28102461674791895 / 36028797018963968) = 3512807709348987 / 4503599627370496"
  using fl64_up [of "28102461674791895 / 36028797018963968" 53 7025615418697974] by (simp add: roundHalfEven_def Let_def)

lemma fl64_r11 [fl64_table]: "fl64 (10538423128046961 / 2251799813685248) = 658651445502935 / 140737488355328"
  using fl64_up [of "10538423128046961 / 2251799813685248" 50 5269211564023480] by (simp add: roundHalfEven_def Let_def)

lemma fl64_r12 [fl64_table]: "fl64 (2) = 2"
  using fl64_up [of "2" 51 4503599627370496] by (simp add: roundHalfEven_def Let_def)

lemma fl64_r13 [fl64_table]: "fl64 (5764607523034235 / 144115188075855872) = 5764607523034235 / 144115188075855872"
  using fl64_up [of "5764607523034235 / 144115188075855872" 57 5764607523034235] by (simp add: roundHalfEven_def Let_def)

lemma fl64_r14 [fl64_table]: "fl64 (34587645138205411 / 144115188075855872) = 8646911284551353 / 36028797018963968"
  using fl64_up [of "34587645138205411 / 144115188075855872" 55 8646911284551353] by (simp add: roundHalfEven_def Let_def)

lemma fl64_r15 [fl64_table]: "fl64 (27381885734412615 / 36028797018963968) = 3422735716801577 / 4503599627370496"
  using fl64_up [of "27381885734412615 / 36028797018963968" 53 6845471433603154] by (simp add: roundHalfEven_def Let_def)

lemma fl64_r16 [fl64_table]: "fl64 (23959150017611039 / 4503599627370496) = 748723438050345 / 140737488355328"
  using fl64_up [of "23959150017611039 / 4503599627370496" 50 5989787504402760] by (simp add: roundHalfEven_def Let_def)

lemma fl64_r17 [fl64_table]: "fl64 (3) = 3"
  using fl64_up [of "3" 51 6755399441055744] by (simp add: roundHalfEven_def Let_def)

lemma fl64_r18 [fl64_table]: "fl64 (17293822569102705 / 288230376151711744) = 1080863910568919 / 18014398509481984"
  using fl64_up [of "17293822569102705 / 288230376151711744" 57 8646911284551352] by (simp add: roundHalfEven_def Let_def)

lemma fl64_r19 [fl64_table]: "fl64 (1170935903116329 / 4503599627370496) = 1170935903116329 / 4503599627370496"
  using fl64_up [of "1170935903116329 / 4503599627370496" 54 4683743612465316] by (simp add: roundHalfEven_def Let_def)

lemma fl64_r20 [fl64_table]: "fl64 (3332663724254167 / 4503599627370496) = 3332663724254167 / 4503599627370496"
  using fl64_up [of "3332663724254167 / 4503599627370496" 53 6665327448508334] by (simp add: roundHalfEven_def Let_def)

lemma fl64_r21 [fl64_table]: "fl64 (3332663724254167 / 562949953421312) = 3332663724254167 / 562949953421312"
  using fl64_up [of "3332663724254167 / 562949953421312" 50 6665327448508334] by (simp add: roundHalfEven_def Let_def)

lemma fl64_r22 [fl64_table]: "fl64 (4) = 4"
  using fl64_up [of "4" 50 4503599627370496] by (simp add: roundHalfEven_def Let_def)

lemma fl64_r23 [fl64_table]: "fl64 (5764607523034235 / 72057594037927936) = 5764607523034235 / 72057594037927936"
  using fl64_up [of "5764607523034235 / 72057594037927936" 56 5764607523034235] by (simp add: roundHalfEven_def Let_def)

lemma fl64_r24 [fl64_table]: "fl64 (20176126330619823 / 72057594037927936) = 1261007895663739 / 4503599627370496"
  using fl64_up [of "20176126330619823 / 72057594037927936" 54 5044031582654956] by (simp add: roundHalfEven_def Let_def)

lemma fl64_r25 [fl64_table]: "fl64 (3242591731706757 / 4503599627370496) = 3242591731706757 / 4503599627370496"
  using fl64_up [of "3242591731706757 / 4503599627370496" 53 6485183463413514] by (simp add: roundHalfEven_def Let_def)

lemma fl64_r26 [fl64_table]: "fl64 (29183325585360813 / 4503599627370496) = 7295831396340203 / 1125899906842624"
  using fl64_up [of "29183325585360813 / 4503599627370496" 50 7295831396340203] by (simp add: roundHalfEven_def Let_def)

lemma fl64_r27 [fl64_table]: "fl64 (3 / 10) = 5404319552844595 / 18014398509481984"
  using fl64_up [of "3 / 10" 54 5404319552844595] by (simp add: roundHalfEven_def Let_def)

lemma fl64_r28 [fl64_table]: "fl64 (1 / 100) = 5764607523034235 / 576460752303423488"
  using fl64_up [of "1 / 100" 59 5764607523034235] by (simp add: roundHalfEven_def Let_def)

lemma fl64_r29 [fl64_table]: "fl64 (5404319552844595 / 18014398509481984) = 5404319552844595 / 18014398509481984"
  using fl64_up [of "5404319552844595 / 18014398509481984" 54 5404319552844595] by (simp add: roundHalfEven_def Let_def)

lemma fl64_r30 [fl64_table]: "fl64 (12610078956637389 / 18014398509481984) = 3152519739159347 / 4503599627370496"
  using fl64_up [of "12610078956637389 / 18014398509481984" 53 6305039478318694] by (simp add: roundHalfEven_def Let_def)

lemma fl64_r31 [fl64_table]: "fl64 (15762598695796735 / 2251799813685248) = 7"
  using fl64_up [of "15762598695796735 / 2251799813685248" 50 7881299347898368] by (simp add: roundHalfEven_def Let_def)

lemma fl64_r32 [fl64_table]: "fl64 (5764607523034235 / 576460752303423488) = 5764607523034235 / 576460752303423488"
  using fl64_up [of "5764607523034235 / 576460752303423488" 59 5764607523034235] by (simp add: roundHalfEven_def Let_def)

lemma fl64_r33 [fl64_table]: "fl64 (178702833214061275 / 576460752303423488) = 5584463537939415 / 18014398509481984"
  using fl64_up [of "178702833214061275 / 576460752303423488" 54 5584463537939415] by (simp add: roundHalfEven_def Let_def)

lemma fl64_r34 [fl64_table]: "fl64 (12429934971542569 / 18014398509481984) = 1553741871442821 / 2251799813685248"
  using fl64_up [of "12429934971542569 / 18014398509481984" 53 6214967485771284] by (simp add: roundHalfEven_def Let_def)

lemma fl64_r35 [fl64_table]: "fl64 (17091160585871031 / 2251799813685248) = 2136395073233879 / 281474976710656"
  using fl64_up [of "17091160585871031 / 2251799813685248" 50 8545580292935516] by (simp add: roundHalfEven_def Let_def)

lemma fl64_r36 [fl64_table]: "fl64 (92233720368547755 / 288230376151711744) = 5764607523034235 / 18014398509481984"
  using fl64_up [of "92233720368547755 / 288230376151711744" 54 5764607523034235] by (simp add: roundHalfEven_def Let_def)

lemma fl64_r37 [fl64_table]: "fl64 (12249790986447749 / 18014398509481984) = 3062447746611937 / 4503599627370496"
  using fl64_up [of "12249790986447749 / 18014398509481984" 53 6124895493223874] by (simp add: roundHalfEven_def Let_def)

lemma fl64_r38 [fl64_table]: "fl64 (9187343239835811 / 1125899906842624) = 2296835809958953 / 281474976710656"
  using fl64_up [of "9187343239835811 / 1125899906842624" 49 4593671619917906] by (simp add: roundHalfEven_def Let_def)

lemma fl64_r39 [fl64_table]: "fl64 (17293822569102705 / 576460752303423488) = 1080863910568919 / 36028797018963968"
  using fl64_up [of "17293822569102705 / 576460752303423488" 58 8646911284551352] by (simp add: roundHalfEven_def Let_def)

lemma fl64_r40 [fl64_table]: "fl64 (11889503016258109 / 36028797018963968) = 2972375754064527 / 9007199254740992"
  using fl64_up [of "11889503016258109 / 36028797018963968" 54 5944751508129054] by (simp add: roundHalfEven_def Let_def)

lemma fl64_r41 [fl64_table]: "fl64 (6034823500676465 / 9007199254740992) = 6034823500676465 / 9007199254740992"
  using fl64_up [of "6034823500676465 / 9007199254740992" 53 6034823500676465] by (simp add: roundHalfEven_def Let_def)

lemma fl64_r42 [fl64_table]: "fl64 (78452705508794045 / 9007199254740992) = 1225823523574907 / 140737488355328"
  using fl64_up [of "78452705508794045 / 9007199254740992" 49 4903294094299628] by (simp add: roundHalfEven_def Let_def)

lemma fl64_r43 [fl64_table]: "fl64 (48999163945790995 / 144115188075855872) = 3062447746611937 / 9007199254740992"
  using fl64_up [of "48999163945790995 / 144115188075855872" 54 6124895493223874] by (simp add: roundHalfEven_def Let_def)

lemma fl64_r44 [fl64_table]: "fl64 (5944751508129055 / 9007199254740992) = 5944751508129055 / 9007199254740992"
  using fl64_up [of "5944751508129055 / 9007199254740992" 53 5944751508129055] by (simp add: roundHalfEven_def Let_def)

lemma fl64_r45 [fl64_table]: "fl64 (41613260556903385 / 4503599627370496) = 5201657569612923 / 562949953421312"
  using fl64_up [of "41613260556903385 / 4503599627370496" 49 5201657569612923] by (simp add: roundHalfEven_def Let_def)

lemma fl64_r46 [fl64_table]: "fl64 (5) = 5"
  using fl64_up [of "5" 50 5629499534213120] by (simp add: roundHalfEven_def Let_def)

lemma fl64_r47 [fl64_table]: "fl64 (28823037615171175 / 576460752303423488) = 3602879701896397 / 72057594037927936"
  using fl64_up [of "28823037615171175 / 576460752303423488" 57 7205759403792794] by (simp add: roundHalfEven_def Let_def)

lemma fl64_r48 [fl64_table]: "fl64 (25220157913274777 / 72057594037927936) = 3152519739159347 / 9007199254740992"
  using fl64_up [of "25220157913274777 / 72057594037927936" 54 6305039478318694] by (simp add: roundHalfEven_def Let_def)

lemma fl64_r49 [fl64_table]: "fl64 (5854679515581645 / 9007199254740992) = 5854679515581645 / 9007199254740992"
  using fl64_up [of "5854679515581645 / 9007199254740992" 53 5854679515581645] by (simp add: roundHalfEven_def Let_def)

lemma fl64_r50 [fl64_table]: "fl64 (87820192733724675 / 9007199254740992) = 39 / 4"
  using fl64_up [of "87820192733724675 / 9007199254740992" 49 5488762045857792] by (simp add: roundHalfEven_def Let_def)

lemma fl64_r51 [fl64_table]: "fl64 (6) = 6"
  using fl64_up [of "6" 50 6755399441055744] by (simp add: roundHalfEven_def Let_def)

lemma fl64_r52 [fl64_table]: "fl64 (3242591731706757 / 9007199254740992) = 3242591731706757 / 9007199254740992"
  using fl64_up [of "3242591731706757 / 9007199254740992" 54 6485183463413514] by (simp add: roundHalfEven_def Let_def)

lemma fl64_r53 [fl64_table]: "fl64 (5764607523034235 / 9007199254740992) = 5764607523034235 / 9007199254740992"
  using fl64_up [of "5764607523034235 / 9007199254740992" 53 5764607523034235] by (simp add: roundHalfEven_def Let_def)

lemma fl64_r54 [fl64_table]: "fl64 (5764607523034235 / 562949953421312) = 5764607523034235 / 562949953421312"
  using fl64_up [of "5764607523034235 / 562949953421312" 49 5764607523034235] by (simp add: roundHalfEven_def Let_def)

lemma fl64_r55 [fl64_table]: "fl64 (7) = 7"
  using fl64_up [of "7" 50 7881299347898368] by (simp add: roundHalfEven_def Let_def)

lemma fl64_r56 [fl64_table]: "fl64 (40352252661239645 / 576460752303423488) = 1261007895663739 / 18014398509481984"
  using fl64_up [of "40352252661239645 / 576460752303423488" 56 5044031582654956] by (simp add: roundHalfEven_def Let_def)

lemma fl64_r57 [fl64_table]: "fl64 (3332663724254167 / 9007199254740992) = 3332663724254167 / 9007199254740992"
  using fl64_up [of "3332663724254167 / 9007199254740992" 54 6665327448508334] by (simp add: roundHalfEven_def Let_def)

lemma fl64_r58 [fl64_table]: "fl64 (5674535530486825 / 9007199254740992) = 5674535530486825 / 9007199254740992"
  using fl64_up [of "5674535530486825 / 9007199254740992" 53 5674535530486825] by (simp add: roundHalfEven_def Let_def)

lemma fl64_r59 [fl64_table]: "fl64 (96467104018276025 / 9007199254740992) = 1507298500285563 / 140737488355328"
  using fl64_up [of "96467104018276025 / 9007199254740992" 49 6029194001142252] by (simp add: roundHalfEven_def Let_def)

lemma fl64_r60 [fl64_table]: "fl64 (8) = 8"
  using fl64_up [of "8" 49 4503599627370496] by (simp add: roundHalfEven_def Let_def)

lemma fl64_r61 [fl64_table]: "fl64 (27381885734412615 / 72057594037927936) = 3422735716801577 / 9007199254740992"
  using fl64_up [of "27381885734412615 / 72057594037927936" 54 6845471433603154] by (simp add: roundHalfEven_def Let_def)

lemma fl64_r62 [fl64_table]: "fl64 (5584463537939415 / 9007199254740992) = 5584463537939415 / 9007199254740992"
  using fl64_up [of "5584463537939415 / 9007199254740992" 53 5584463537939415] by (simp add: roundHalfEven_def Let_def)

lemma fl64_r63 [fl64_table]: "fl64 (50260171841454735 / 4503599627370496) = 3141260740090921 / 281474976710656"
  using fl64_up [of "50260171841454735 / 4503599627370496" 49 6282521480181842] by (simp add: roundHalfEven_def Let_def)

lemma fl64_r64 [fl64_table]: "fl64 (9) = 9"
  using fl64_up [of "9" 49 5066549580791808] by (simp add: roundHalfEven_def Let_def)

lemma fl64_r65 [fl64_table]: "fl64 (51881467707308115 / 576460752303423488) = 3242591731706757 / 36028797018963968"
  using fl64_up [of "51881467707308115 / 576460752303423488" 56 6485183463413514] by (simp add: roundHalfEven_def Let_def)

lemma fl64_r66 [fl64_table]: "fl64 (14051230837395947 / 36028797018963968) = 3512807709348987 / 9007199254740992"
  using fl64_up [of "14051230837395947 / 36028797018963968" 54 7025615418697974] by (simp add: roundHalfEven_def Let_def)

lemma fl64_r67 [fl64_table]: "fl64 (5494391545392005 / 9007199254740992) = 5494391545392005 / 9007199254740992"
  using fl64_up [of "5494391545392005 / 9007199254740992" 53 5494391545392005] by (simp add: roundHalfEven_def Let_def)

lemma fl64_r68 [fl64_table]: "fl64 (104393439362448095 / 9007199254740992) = 3262294980076503 / 281474976710656"
  using fl64_up [of "104393439362448095 / 9007199254740992" 49 6524589960153006] by (simp add: roundHalfEven_def Let_def)

lemma fl64_r69 [fl64_table]: "fl64 (10) = 10"
  using fl64_up [of "10" 49 5629499534213120] by (simp add: roundHalfEven_def Let_def)

lemma fl64_r70 [fl64_table]: "fl64 (28823037615171175 / 288230376151711744) = 3602879701896397 / 36028797018963968"
  using fl64_up [of "28823037615171175 / 288230376151711744" 56 7205759403792794] by (simp add: roundHalfEven_def Let_def)

lemma fl64_r71 [fl64_table]: "fl64 (14411518807585587 / 36028797018963968) = 3602879701896397 / 9007199254740992"
  using fl64_up [of "14411518807585587 / 36028797018963968" 54 7205759403792794] by (simp add: roundHalfEven_def Let_def)

lemma fl64_r72 [fl64_table]: "fl64 (5404319552844595 / 9007199254740992) = 5404319552844595 / 9007199254740992"
  using fl64_up [of "5404319552844595 / 9007199254740992" 53 5404319552844595] by (simp add: roundHalfEven_def Let_def)

lemma fl64_r73 [fl64_table]: "fl64 (27021597764222975 / 2251799813685248) = 12"
  using fl64_up [of "27021597764222975 / 2251799813685248" 49 6755399441055744] by (simp add: roundHalfEven_def Let_def)

lemma fl64_r74 [fl64_table]: "fl64 (11) = 11"
  using fl64_up [of "11" 49 6192449487634432] by (simp add: roundHalfEven_def Let_def)

lemma fl64_r75 [fl64_table]: "fl64 (63410682753376585 / 576460752303423488) = 7926335344172073 / 72057594037927936"
  using fl64_up [of "63410682753376585 / 576460752303423488" 56 7926335344172073] by (simp add: roundHalfEven_def Let_def)

lemma fl64_r76 [fl64_table]: "fl64 (29543613555550453 / 72057594037927936) = 7385903388887613 / 18014398509481984"
  using fl64_up [of "29543613555550453 / 72057594037927936" 54 7385903388887613] by (simp add: roundHalfEven_def Let_def)

lemma fl64_r77 [fl64_table]: "fl64 (10628495120594371 / 18014398509481984) = 2657123780148593 / 4503599627370496"
  using fl64_up [of "10628495120594371 / 18014398509481984" 53 5314247560297186] by (simp add: roundHalfEven_def Let_def)

lemma fl64_r78 [fl64_table]: "fl64 (55799599383120453 / 4503599627370496) = 6974949922890057 / 562949953421312"
  using fl64_up [of "55799599383120453 / 4503599627370496" 49 6974949922890057] by (simp add: roundHalfEven_def Let_def)

lemma fl64_r79 [fl64_table]: "fl64 (12) = 12"
  using fl64_up [of "12" 49 6755399441055744] by (simp add: roundHalfEven_def Let_def)

lemma fl64_r80 [fl64_table]: "fl64 (17293822569102705 / 144115188075855872) = 1080863910568919 / 9007199254740992"
  using fl64_up [of "17293822569102705 / 144115188075855872" 56 8646911284551352] by (simp add: roundHalfEven_def Let_def)

lemma fl64_r81 [fl64_table]: "fl64 (7566047373982433 / 18014398509481984) = 7566047373982433 / 18014398509481984"
  using fl64_up [of "7566047373982433 / 18014398509481984" 54 7566047373982433] by (simp add: roundHalfEven_def Let_def)

lemma fl64_r82 [fl64_table]: "fl64 (10448351135499551 / 18014398509481984) = 326510972984361 / 562949953421312"
  using fl64_up [of "10448351135499551 / 18014398509481984" 53 5224175567749776] by (simp add: roundHalfEven_def Let_def)

lemma fl64_r83 [fl64_table]: "fl64 (3591620702827971 / 281474976710656) = 3591620702827971 / 281474976710656"
  using fl64_up [of "3591620702827971 / 281474976710656" 49 7183241405655942] by (simp add: roundHalfEven_def Let_def)

lemma fl64_r84 [fl64_table]: "fl64 (13) = 13"
  using fl64_up [of "13" 49 7318349394477056] by (simp add: roundHalfEven_def Let_def)

lemma fl64_r85 [fl64_table]: "fl64 (74939897799445055 / 576460752303423488) = 1170935903116329 / 9007199254740992"
  using fl64_up [of "74939897799445055 / 576460752303423488" 55 4683743612465316] by (simp add: roundHalfEven_def Let_def)

lemma fl64_r86 [fl64_table]: "fl64 (7746191359077253 / 18014398509481984) = 7746191359077253 / 18014398509481984"
  using fl64_up [of "7746191359077253 / 18014398509481984" 54 7746191359077253] by (simp add: roundHalfEven_def Let_def)

lemma fl64_r87 [fl64_table]: "fl64 (10268207150404731 / 18014398509481984) = 2567051787601183 / 4503599627370496"
  using fl64_up [of "10268207150404731 / 18014398509481984" 53 5134103575202366] by (simp add: roundHalfEven_def Let_def)

lemma fl64_r88 [fl64_table]: "fl64 (59042191114827209 / 4503599627370496) = 7380273889353401 / 562949953421312"
  using fl64_up [of "59042191114827209 / 4503599627370496" 49 7380273889353401] by (simp add: roundHalfEven_def Let_def)

lemma fl64_r89 [fl64_table]: "fl64 (14) = 14"
  using fl64_up [of "14" 49 7881299347898368] by (simp add: roundHalfEven_def Let_def)

lemma fl64_r90 [fl64_table]: "fl64 (40352252661239645 / 288230376151711744) = 1261007895663739 / 9007199254740992"
  using fl64_up [of "40352252661239645 / 288230376151711744" 55 5044031582654956] by (simp add: roundHalfEven_def Let_def)

lemma fl64_r91 [fl64_table]: "fl64 (7926335344172073 / 18014398509481984) = 7926335344172073 / 18014398509481984"
  using fl64_up [of "7926335344172073 / 18014398509481984" 54 7926335344172073] by (simp add: roundHalfEven_def Let_def)

lemma fl64_r92 [fl64_table]: "fl64 (10088063165309911 / 18014398509481984) = 1261007895663739 / 2251799813685248"
  using fl64_up [of "10088063165309911 / 18014398509481984" 53 5044031582654956] by (simp add: roundHalfEven_def Let_def)

lemma fl64_r93 [fl64_table]: "fl64 (3783023686991217 / 281474976710656) = 3783023686991217 / 281474976710656"
  using fl64_up [of "3783023686991217 / 281474976710656" 49 7566047373982434] by (simp add: roundHalfEven_def Let_def)

lemma fl64_r94 [fl64_table]: "fl64 (15) = 15"
  using fl64_up [of "15" 49 8444249301319680] by (simp add: roundHalfEven_def Let_def)

lemma fl64_r95 [fl64_table]: "fl64 (86469112845513525 / 576460752303423488) = 5404319552844595 / 36028797018963968"
  using fl64_up [of "86469112845513525 / 576460752303423488" 55 5404319552844595] by (simp add: roundHalfEven_def Let_def)

lemma fl64_r96 [fl64_table]: "fl64 (16212958658533785 / 36028797018963968) = 2026619832316723 / 4503599627370496"
  using fl64_up [of "16212958658533785 / 36028797018963968" 54 8106479329266892] by (simp add: roundHalfEven_def Let_def)

lemma fl64_r97 [fl64_table]: "fl64 (2476979795053773 / 4503599627370496) = 2476979795053773 / 4503599627370496"
  using fl64_up [of "2476979795053773 / 4503599627370496" 53 4953959590107546] by (simp add: roundHalfEven_def Let_def)

lemma fl64_r98 [fl64_table]: "fl64 (61924494876344325 / 4503599627370496) = 7740561859543041 / 562949953421312"
  using fl64_up [of "61924494876344325 / 4503599627370496" 49 7740561859543041] by (simp add: roundHalfEven_def Let_def)

lemma fl64_r99 [fl64_table]: "fl64 (16) = 16"
  using fl64_up [of "16" 48 4503599627370496] by (simp add: roundHalfEven_def Let_def)

lemma fl64_r100 [fl64_table]: "fl64 (5764607523034235 / 36028797018963968) = 5764607523034235 / 36028797018963968"
  using fl64_up [of "5764607523034235 / 36028797018963968" 55 5764607523034235] by (simp add: roundHalfEven_def Let_def)

lemma fl64_r101 [fl64_table]: "fl64 (16573246628723425 / 36028797018963968) = 517913957147607 / 1125899906842624"
  using fl64_up [of "16573246628723425 / 36028797018963968" 54 8286623314361712] by (simp add: roundHalfEven_def Let_def)

lemma fl64_r102 [fl64_table]: "fl64 (607985949695017 / 1125899906842624) = 607985949695017 / 1125899906842624"
  using fl64_up [of "607985949695017 / 1125899906842624" 53 4863887597560136] by (simp add: roundHalfEven_def Let_def)

lemma fl64_r103 [fl64_table]: "fl64 (7903817346035221 / 562949953421312) = 7903817346035221 / 562949953421312"
  using fl64_up [of "7903817346035221 / 562949953421312" 49 7903817346035221] by (simp add: roundHalfEven_def Let_def)

lemma fl64_r104 [fl64_table]: "fl64 (17) = 17"
  using fl64_up [of "17" 48 4785074604081152] by (simp add: roundHalfEven_def Let_def)

lemma fl64_r105 [fl64_table]: "fl64 (97998327891581995 / 576460752303423488) = 6124895493223875 / 36028797018963968"
  using fl64_up [of "97998327891581995 / 576460752303423488" 55 6124895493223875] by (simp add: roundHalfEven_def Let_def)

lemma fl64_r106 [fl64_table]: "fl64 (16933534598913065 / 36028797018963968) = 2116691824864133 / 4503599627370496"
  using fl64_up [of "16933534598913065 / 36028797018963968" 54 8466767299456532] by (simp add: roundHalfEven_def Let_def)

lemma fl64_r107 [fl64_table]: "fl64 (2386907802506363 / 4503599627370496) = 2386907802506363 / 4503599627370496"
  using fl64_up [of "2386907802506363 / 4503599627370496" 53 4773815605012726] by (simp add: roundHalfEven_def Let_def)

lemma fl64_r108 [fl64_table]: "fl64 (64446510667671801 / 4503599627370496) = 8055813833458975 / 562949953421312"
  using fl64_up [of "64446510667671801 / 4503599627370496" 49 8055813833458975] by (simp add: roundHalfEven_def Let_def)

lemma fl64_r109 [fl64_table]: "fl64 (18) = 18"
  using fl64_up [of "18" 48 5066549580791808] by (simp add: roundHalfEven_def Let_def)

lemma fl64_r110 [fl64_table]: "fl64 (51881467707308115 / 288230376151711744) = 3242591731706757 / 18014398509481984"
  using fl64_up [of "51881467707308115 / 288230376151711744" 55 6485183463413514] by (simp add: roundHalfEven_def Let_def)

lemma fl64_r111 [fl64_table]: "fl64 (1080863910568919 / 2251799813685248) = 1080863910568919 / 2251799813685248"
  using fl64_up [of "1080863910568919 / 2251799813685248" 54 8646911284551352] by (simp add: roundHalfEven_def Let_def)

lemma fl64_r112 [fl64_table]: "fl64 (1170935903116329 / 2251799813685248) = 1170935903116329 / 2251799813685248"
  using fl64_up [of "1170935903116329 / 2251799813685248" 53 4683743612465316] by (simp add: roundHalfEven_def Let_def)

lemma fl64_r113 [fl64_table]: "fl64 (8196551321814303 / 562949953421312) = 8196551321814303 / 562949953421312"
  using fl64_up [of "8196551321814303 / 562949953421312" 49 8196551321814303] by (simp add: roundHalfEven_def Let_def)

lemma fl64_r114 [fl64_table]: "fl64 (19) = 19"
  using fl64_up [of "19" 48 5348024557502464] by (simp add: roundHalfEven_def Let_def)

lemma fl64_r115 [fl64_table]: "fl64 (109527542937650465 / 576460752303423488) = 3422735716801577 / 18014398509481984"
  using fl64_up [of "109527542937650465 / 576460752303423488" 55 6845471433603154] by (simp add: roundHalfEven_def Let_def)

lemma fl64_r116 [fl64_table]: "fl64 (2206763817411543 / 4503599627370496) = 2206763817411543 / 4503599627370496"
  using fl64_up [of "2206763817411543 / 4503599627370496" 54 8827055269646172] by (simp add: roundHalfEven_def Let_def)

lemma fl64_r117 [fl64_table]: "fl64 (2296835809958953 / 4503599627370496) = 2296835809958953 / 4503599627370496"
  using fl64_up [of "2296835809958953 / 4503599627370496" 53 4593671619917906] by (simp add: roundHalfEven_def Let_def)

lemma fl64_r118 [fl64_table]: "fl64 (66608238488809637 / 4503599627370496) = 8326029811101205 / 562949953421312"
  using fl64_up [of "66608238488809637 / 4503599627370496" 49 8326029811101205] by (simp add: roundHalfEven_def Let_def)

lemma fl64_r119 [fl64_table]: "fl64 (20) = 20"
  using fl64_up [of "20" 48 5629499534213120] by (simp add: roundHalfEven_def Let_def)

lemma fl64_r120 [fl64_table]: "fl64 (28823037615171175 / 144115188075855872) = 3602879701896397 / 18014398509481984"
  using fl64_up [of "28823037615171175 / 144115188075855872" 55 7205759403792794] by (simp add: roundHalfEven_def Let_def)

lemma fl64_r121 [fl64_table]: "fl64 (1 / 2) = 1 / 2"
  using fl64_up [of "1 / 2" 53 4503599627370496] by (simp add: roundHalfEven_def Let_def)

lemma fl64_r122 [fl64_table]: "fl64 (21) = 21"
  using fl64_up [of "21" 48 5910974510923776] by (simp add: roundHalfEven_def Let_def)

lemma fl64_r123 [fl64_table]: "fl64 (121056757983718935 / 576460752303423488) = 7566047373982433 / 36028797018963968"
  using fl64_up [of "121056757983718935 / 576460752303423488" 55 7566047373982433] by (simp add: roundHalfEven_def Let_def)

lemma fl64_r124 [fl64_table]: "fl64 (18374686479671623 / 36028797018963968) = 2296835809958953 / 4503599627370496"
  using fl64_up [of "18374686479671623 / 36028797018963968" 53 4593671619917906] by (simp add: roundHalfEven_def Let_def)

lemma fl64_r125 [fl64_table]: "fl64 (68409678339757833 / 4503599627370496) = 8551209792469729 / 562949953421312"
  using fl64_up [of "68409678339757833 / 4503599627370496" 49 8551209792469729] by (simp add: roundHalfEven_def Let_def)

lemma fl64_r126 [fl64_table]: "fl64 (22) = 22"
  using fl64_up [of "22" 48 6192449487634432] by (simp add: roundHalfEven_def Let_def)

lemma fl64_r127 [fl64_table]: "fl64 (63410682753376585 / 288230376151711744) = 7926335344172073 / 36028797018963968"
  using fl64_up [of "63410682753376585 / 288230376151711744" 55 7926335344172073] by (simp add: roundHalfEven_def Let_def)

lemma fl64_r128 [fl64_table]: "fl64 (18734974449861263 / 36028797018963968) = 1170935903116329 / 2251799813685248"
  using fl64_up [of "18734974449861263 / 36028797018963968" 53 4683743612465316] by (simp add: roundHalfEven_def Let_def)

lemma fl64_r129 [fl64_table]: "fl64 (1080863910568919 / 70368744177664) = 1080863910568919 / 70368744177664"
  using fl64_up [of "1080863910568919 / 70368744177664" 49 8646911284551352] by (simp add: roundHalfEven_def Let_def)

lemma fl64_r130 [fl64_table]: "fl64 (23) = 23"
  using fl64_up [of "23" 48 6473924464345088] by (simp add: roundHalfEven_def Let_def)

lemma fl64_r131 [fl64_table]: "fl64 (132585973029787405 / 576460752303423488) = 8286623314361713 / 36028797018963968"
  using fl64_up [of "132585973029787405 / 576460752303423488" 55 8286623314361713] by (simp add: roundHalfEven_def Let_def)

lemma fl64_r132 [fl64_table]: "fl64 (19095262420050903 / 36028797018963968) = 2386907802506363 / 4503599627370496"
  using fl64_up [of "19095262420050903 / 36028797018963968" 53 4773815605012726] by (simp add: roundHalfEven_def Let_def)

lemma fl64_r133 [fl64_table]: "fl64 (2116691824864133 / 4503599627370496) = 2116691824864133 / 4503599627370496"
  using fl64_up [of "2116691824864133 / 4503599627370496" 54 8466767299456532] by (simp add: roundHalfEven_def Let_def)

lemma fl64_r134 [fl64_table]: "fl64 (69850830220516389 / 4503599627370496) = 8731353777564549 / 562949953421312"
  using fl64_up [of "69850830220516389 / 4503599627370496" 49 8731353777564549] by (simp add: roundHalfEven_def Let_def)

lemma fl64_r135 [fl64_table]: "fl64 (24) = 24"
  using fl64_up [of "24" 48 6755399441055744] by (simp add: roundHalfEven_def Let_def)

lemma fl64_r136 [fl64_table]: "fl64 (17293822569102705 / 72057594037927936) = 1080863910568919 / 4503599627370496"
  using fl64_up [of "17293822569102705 / 72057594037927936" 55 8646911284551352] by (simp add: roundHalfEven_def Let_def)

lemma fl64_r137 [fl64_table]: "fl64 (9727775195120271 / 18014398509481984) = 607985949695017 / 1125899906842624"
  using fl64_up [of "9727775195120271 / 18014398509481984" 53 4863887597560136] by (simp add: roundHalfEven_def Let_def)

lemma fl64_r138 [fl64_table]: "fl64 (517913957147607 / 1125899906842624) = 517913957147607 / 1125899906842624"
  using fl64_up [of "517913957147607 / 1125899906842624" 54 8286623314361712] by (simp add: roundHalfEven_def Let_def)

lemma fl64_r139 [fl64_table]: "fl64 (8804537271509319 / 562949953421312) = 8804537271509319 / 562949953421312"
  using fl64_up [of "8804537271509319 / 562949953421312" 49 8804537271509319] by (simp add: roundHalfEven_def Let_def)

lemma fl64_r140 [fl64_table]: "fl64 (25) = 25"
  using fl64_up [of "25" 48 7036874417766400] by (simp add: roundHalfEven_def Let_def)

lemma fl64_r141 [fl64_table]: "fl64 (144115188075855875 / 576460752303423488) = 1 / 4"
  using fl64_up [of "144115188075855875 / 576460752303423488" 54 4503599627370496] by (simp add: roundHalfEven_def Let_def)

lemma fl64_r142 [fl64_table]: "fl64 (9907919180215091 / 18014398509481984) = 2476979795053773 / 4503599627370496"
  using fl64_up [of "9907919180215091 / 18014398509481984" 53 4953959590107546] by (simp add: roundHalfEven_def Let_def)

lemma fl64_r143 [fl64_table]: "fl64 (2026619832316723 / 4503599627370496) = 2026619832316723 / 4503599627370496"
  using fl64_up [of "2026619832316723 / 4503599627370496" 54 8106479329266892] by (simp add: roundHalfEven_def Let_def)

lemma fl64_r144 [fl64_table]: "fl64 (70931694131085305 / 4503599627370496) = 8866461766385663 / 562949953421312"
  using fl64_up [of "70931694131085305 / 4503599627370496" 49 8866461766385663] by (simp add: roundHalfEven_def Let_def)

lemma fl64_r145 [fl64_table]: "fl64 (26) = 26"
  using fl64_up [of "26" 48 7318349394477056] by (simp add: roundHalfEven_def Let_def)

lemma fl64_r146 [fl64_table]: "fl64 (74939897799445055 / 288230376151711744) = 1170935903116329 / 4503599627370496"
  using fl64_up [of "74939897799445055 / 288230376151711744" 54 4683743612465316] by (simp add: roundHalfEven_def Let_def)

lemma fl64_r147 [fl64_table]: "fl64 (990791918021509 / 2251799813685248) = 990791918021509 / 2251799813685248"
  using fl64_up [of "990791918021509 / 2251799813685248" 54 7926335344172072] by (simp add: roundHalfEven_def Let_def)

lemma fl64_r148 [fl64_table]: "fl64 (8917127262193581 / 562949953421312) = 8917127262193581 / 562949953421312"
  using fl64_up [of "8917127262193581 / 562949953421312" 49 8917127262193581] by (simp add: roundHalfEven_def Let_def)

lemma fl64_r149 [fl64_table]: "fl64 (27) = 27"
  using fl64_up [of "27" 48 7599824371187712] by (simp add: roundHalfEven_def Let_def)

lemma fl64_r150 [fl64_table]: "fl64 (155644403121924345 / 576460752303423488) = 607985949695017 / 2251799813685248"
  using fl64_up [of "155644403121924345 / 576460752303423488" 54 4863887597560136] by (simp add: roundHalfEven_def Let_def)

lemma fl64_r151 [fl64_table]: "fl64 (1936547839769313 / 4503599627370496) = 1936547839769313 / 4503599627370496"
  using fl64_up [of "1936547839769313 / 4503599627370496" 54 7746191359077252] by (simp add: roundHalfEven_def Let_def)

lemma fl64_r152 [fl64_table]: "fl64 (71652270071464581 / 4503599627370496) = 8956533758933073 / 562949953421312"
  using fl64_up [of "71652270071464581 / 4503599627370496" 49 8956533758933073] by (simp add: roundHalfEven_def Let_def)

lemma fl64_r153 [fl64_table]: "fl64 (28) = 28"
  using fl64_up [of "28" 48 7881299347898368] by (simp add: roundHalfEven_def Let_def)

lemma fl64_r154 [fl64_table]: "fl64 (40352252661239645 / 144115188075855872) = 1261007895663739 / 4503599627370496"
  using fl64_up [of "40352252661239645 / 144115188075855872" 54 5044031582654956] by (simp add: roundHalfEven_def Let_def)

lemma fl64_r155 [fl64_table]: "fl64 (236438980436951 / 562949953421312) = 236438980436951 / 562949953421312"
  using fl64_up [of "236438980436951 / 562949953421312" 54 7566047373982432] by (simp add: roundHalfEven_def Let_def)

lemma fl64_r156 [fl64_table]: "fl64 (4492340628302069 / 281474976710656) = 4492340628302069 / 281474976710656"
  using fl64_up [of "4492340628302069 / 281474976710656" 49 8984681256604138] by (simp add: roundHalfEven_def Let_def)

lemma fl64_r157 [fl64_table]: "fl64 (29) = 29"
  using fl64_up [of "29" 48 8162774324609024] by (simp add: roundHalfEven_def Let_def)

lemma fl64_r158 [fl64_table]: "fl64 (167173618167992815 / 576460752303423488) = 5224175567749775 / 18014398509481984"
  using fl64_up [of "167173618167992815 / 576460752303423488" 54 5224175567749775] by (simp add: roundHalfEven_def Let_def)

lemma fl64_r159 [fl64_table]: "fl64 (5314247560297185 / 9007199254740992) = 5314247560297185 / 9007199254740992"
  using fl64_up [of "5314247560297185 / 9007199254740992" 53 5314247560297185] by (simp add: roundHalfEven_def Let_def)

lemma fl64_r160 [fl64_table]: "fl64 (3692951694443807 / 9007199254740992) = 3692951694443807 / 9007199254740992"
  using fl64_up [of "3692951694443807 / 9007199254740992" 54 7385903388887614] by (simp add: roundHalfEven_def Let_def)

lemma fl64_r161 [fl64_table]: "fl64 (144025116083308473 / 9007199254740992) = 2250392438801695 / 140737488355328"
  using fl64_up [of "144025116083308473 / 9007199254740992" 49 9001569755206780] by (simp add: roundHalfEven_def Let_def)

lemma fl64_r162 [fl64_table]: "fl64 (30) = 30"
  using fl64_up [of "30" 48 8444249301319680] by (simp add: roundHalfEven_def Let_def)

lemma fl64_r163 [fl64_table]: "fl64 (86469112845513525 / 288230376151711744) = 5404319552844595 / 18014398509481984"
  using fl64_up [of "86469112845513525 / 288230376151711744" 54 5404319552844595] by (simp add: roundHalfEven_def Let_def)

lemma fl64_r164 [fl64_table]: "fl64 (3602879701896397 / 9007199254740992) = 3602879701896397 / 9007199254740992"
  using fl64_up [of "3602879701896397 / 9007199254740992" 54 7205759403792794] by (simp add: roundHalfEven_def Let_def)

lemma fl64_r165 [fl64_table]: "fl64 (18014398509481985 / 1125899906842624) = 16"
  using fl64_up [of "18014398509481985 / 1125899906842624" 48 4503599627370496] by (simp add: roundHalfEven_def Let_def)

lemma fl64_r166 [fl64_table]: "fl64 (31) = 31"
  using fl64_up [of "31" 48 8725724278030336] by (simp add: roundHalfEven_def Let_def)

lemma fl64_r167 [fl64_table]: "fl64 (178702833214061285 / 576460752303423488) = 5584463537939415 / 18014398509481984"
  using fl64_up [of "178702833214061285 / 576460752303423488" 54 5584463537939415] by (simp add: roundHalfEven_def Let_def)

lemma fl64_r168 [fl64_table]: "fl64 (3512807709348987 / 9007199254740992) = 3512807709348987 / 9007199254740992"
  using fl64_up [of "3512807709348987 / 9007199254740992" 54 7025615418697974] by (simp add: roundHalfEven_def Let_def)

lemma fl64_r169 [fl64_table]: "fl64 (144025116083308467 / 9007199254740992) = 9001569755206779 / 562949953421312"
  using fl64_up [of "144025116083308467 / 9007199254740992" 49 9001569755206779] by (simp add: roundHalfEven_def Let_def)

lemma fl64_r170 [fl64_table]: "fl64 (32) = 32"
  using fl64_up [of "32" 47 4503599627370496] by (simp add: roundHalfEven_def Let_def)

lemma fl64_r171 [fl64_table]: "fl64 (5764607523034235 / 18014398509481984) = 5764607523034235 / 18014398509481984"
  using fl64_up [of "5764607523034235 / 18014398509481984" 54 5764607523034235] by (simp add: roundHalfEven_def Let_def)

lemma fl64_r172 [fl64_table]: "fl64 (3422735716801577 / 9007199254740992) = 3422735716801577 / 9007199254740992"
  using fl64_up [of "3422735716801577 / 9007199254740992" 54 6845471433603154] by (simp add: roundHalfEven_def Let_def)

lemma fl64_r173 [fl64_table]: "fl64 (71877450052833117 / 4503599627370496) = 2246170314151035 / 140737488355328"
  using fl64_up [of "71877450052833117 / 4503599627370496" 49 8984681256604140] by (simp add: roundHalfEven_def Let_def)

lemma fl64_r174 [fl64_table]: "fl64 (33) = 33"
  using fl64_up [of "33" 47 4644337115725824] by (simp add: roundHalfEven_def Let_def)

lemma fl64_r175 [fl64_table]: "fl64 (190232048260129755 / 576460752303423488) = 5944751508129055 / 18014398509481984"
  using fl64_up [of "190232048260129755 / 576460752303423488" 54 5944751508129055] by (simp add: roundHalfEven_def Let_def)

lemma fl64_r176 [fl64_table]: "fl64 (143304540142929181 / 9007199254740992) = 4478266879466537 / 281474976710656"
  using fl64_up [of "143304540142929181 / 9007199254740992" 49 8956533758933074] by (simp add: roundHalfEven_def Let_def)

lemma fl64_r177 [fl64_table]: "fl64 (34) = 34"
  using fl64_up [of "34" 47 4785074604081152] by (simp add: roundHalfEven_def Let_def)

lemma fl64_r178 [fl64_table]: "fl64 (97998327891581995 / 288230376151711744) = 6124895493223875 / 18014398509481984"
  using fl64_up [of "97998327891581995 / 288230376151711744" 54 6124895493223875] by (simp add: roundHalfEven_def Let_def)

lemma fl64_r179 [fl64_table]: "fl64 (35668509048774327 / 2251799813685248) = 4458563631096791 / 281474976710656"
  using fl64_up [of "35668509048774327 / 2251799813685248" 49 8917127262193582] by (simp add: roundHalfEven_def Let_def)

lemma fl64_r180 [fl64_table]: "fl64 (35) = 35"
  using fl64_up [of "35" 47 4925812092436480] by (simp add: roundHalfEven_def Let_def)

lemma fl64_r181 [fl64_table]: "fl64 (201761263306198225 / 576460752303423488) = 6305039478318695 / 18014398509481984"
  using fl64_up [of "201761263306198225 / 576460752303423488" 54 6305039478318695] by (simp add: roundHalfEven_def Let_def)

lemma fl64_r182 [fl64_table]: "fl64 (3152519739159347 / 9007199254740992) = 3152519739159347 / 9007199254740992"
  using fl64_up [of "3152519739159347 / 9007199254740992" 54 6305039478318694] by (simp add: roundHalfEven_def Let_def)

lemma fl64_r183 [fl64_table]: "fl64 (141863388262170615 / 9007199254740992) = 8866461766385663 / 562949953421312"
  using fl64_up [of "141863388262170615 / 9007199254740992" 49 8866461766385663] by (simp add: roundHalfEven_def Let_def)

lemma fl64_r184 [fl64_table]: "fl64 (36) = 36"
  using fl64_up [of "36" 47 5066549580791808] by (simp add: roundHalfEven_def Let_def)

lemma fl64_r185 [fl64_table]: "fl64 (51881467707308115 / 144115188075855872) = 3242591731706757 / 9007199254740992"
  using fl64_up [of "51881467707308115 / 144115188075855872" 54 6485183463413514] by (simp add: roundHalfEven_def Let_def)

lemma fl64_r186 [fl64_table]: "fl64 (11889503016258109 / 18014398509481984) = 2972375754064527 / 4503599627370496"
  using fl64_up [of "11889503016258109 / 18014398509481984" 53 5944751508129054] by (simp add: roundHalfEven_def Let_def)

lemma fl64_r187 [fl64_table]: "fl64 (1531223873305969 / 4503599627370496) = 1531223873305969 / 4503599627370496"
  using fl64_up [of "1531223873305969 / 4503599627370496" 54 6124895493223876] by (simp add: roundHalfEven_def Let_def)

lemma fl64_r188 [fl64_table]: "fl64 (35218149086037287 / 2251799813685248) = 4402268635754661 / 281474976710656"
  using fl64_up [of "35218149086037287 / 2251799813685248" 49 8804537271509322] by (simp add: roundHalfEven_def Let_def)

lemma fl64_r189 [fl64_table]: "fl64 (37) = 37"
  using fl64_up [of "37" 47 5207287069147136] by (simp add: roundHalfEven_def Let_def)

lemma fl64_r190 [fl64_table]: "fl64 (213290478352266695 / 576460752303423488) = 3332663724254167 / 9007199254740992"
  using fl64_up [of "213290478352266695 / 576460752303423488" 54 6665327448508334] by (simp add: roundHalfEven_def Let_def)

lemma fl64_r191 [fl64_table]: "fl64 (12069647001352929 / 18014398509481984) = 377176468792279 / 562949953421312"
  using fl64_up [of "12069647001352929 / 18014398509481984" 53 6034823500676464] by (simp add: roundHalfEven_def Let_def)

lemma fl64_r192 [fl64_table]: "fl64 (185773484629033 / 562949953421312) = 185773484629033 / 562949953421312"
  using fl64_up [of "185773484629033 / 562949953421312" 54 5944751508129056] by (simp add: roundHalfEven_def Let_def)

lemma fl64_r193 [fl64_table]: "fl64 (8731353777564551 / 562949953421312) = 8731353777564551 / 562949953421312"
  using fl64_up [of "8731353777564551 / 562949953421312" 49 8731353777564551] by (simp add: roundHalfEven_def Let_def)

lemma fl64_r194 [fl64_table]: "fl64 (38) = 38"
  using fl64_up [of "38" 47 5348024557502464] by (simp add: roundHalfEven_def Let_def)

lemma fl64_r195 [fl64_table]: "fl64 (109527542937650465 / 288230376151711744) = 3422735716801577 / 9007199254740992"
  using fl64_up [of "109527542937650465 / 288230376151711744" 54 6845471433603154] by (simp add: roundHalfEven_def Let_def)

lemma fl64_r196 [fl64_table]: "fl64 (1441151880758559 / 4503599627370496) = 1441151880758559 / 4503599627370496"
  using fl64_up [of "1441151880758559 / 4503599627370496" 54 5764607523034236] by (simp add: roundHalfEven_def Let_def)

lemma fl64_r197 [fl64_table]: "fl64 (4323455642275677 / 281474976710656) = 4323455642275677 / 281474976710656"
  using fl64_up [of "4323455642275677 / 281474976710656" 49 8646911284551354] by (simp add: roundHalfEven_def Let_def)

lemma fl64_r198 [fl64_table]: "fl64 (39) = 39"
  using fl64_up [of "39" 47 5488762045857792] by (simp add: roundHalfEven_def Let_def)

lemma fl64_r199 [fl64_table]: "fl64 (224819693398335165 / 576460752303423488) = 3512807709348987 / 9007199254740992"
  using fl64_up [of "224819693398335165 / 576460752303423488" 54 7025615418697974] by (simp add: roundHalfEven_def Let_def)

lemma fl64_r200 [fl64_table]: "fl64 (698057942242427 / 2251799813685248) = 698057942242427 / 2251799813685248"
  using fl64_up [of "698057942242427 / 2251799813685248" 54 5584463537939416] by (simp add: roundHalfEven_def Let_def)

lemma fl64_r201 [fl64_table]: "fl64 (34204839169878923 / 2251799813685248) = 8551209792469731 / 562949953421312"
  using fl64_up [of "34204839169878923 / 2251799813685248" 49 8551209792469731] by (simp add: roundHalfEven_def Let_def)

lemma fl64_r202 [fl64_table]: "fl64 (40) = 40"
  using fl64_up [of "40" 47 5629499534213120] by (simp add: roundHalfEven_def Let_def)

lemma fl64_r203 [fl64_table]: "fl64 (28823037615171175 / 72057594037927936) = 3602879701896397 / 9007199254740992"
  using fl64_up [of "28823037615171175 / 72057594037927936" 54 7205759403792794] by (simp add: roundHalfEven_def Let_def)

lemma fl64_r204 [fl64_table]: "fl64 (1351079888211149 / 4503599627370496) = 1351079888211149 / 4503599627370496"
  using fl64_up [of "1351079888211149 / 4503599627370496" 54 5404319552844596] by (simp add: roundHalfEven_def Let_def)

lemma fl64_r205 [fl64_table]: "fl64 (33776997205278725 / 2251799813685248) = 8444249301319681 / 562949953421312"
  using fl64_up [of "33776997205278725 / 2251799813685248" 49 8444249301319681] by (simp add: roundHalfEven_def Let_def)

lemma fl64_r206 [fl64_table]: "fl64 (41) = 41"
  using fl64_up [of "41" 47 5770237022568448] by (simp add: roundHalfEven_def Let_def)

lemma fl64_r207 [fl64_table]: "fl64 (236348908444403635 / 576460752303423488) = 3692951694443807 / 9007199254740992"
  using fl64_up [of "236348908444403635 / 576460752303423488" 54 7385903388887614] by (simp add: roundHalfEven_def Let_def)

lemma fl64_r208 [fl64_table]: "fl64 (12790222941732209 / 18014398509481984) = 799388933858263 / 1125899906842624"
  using fl64_up [of "12790222941732209 / 18014398509481984" 53 6395111470866104] by (simp add: roundHalfEven_def Let_def)

lemma fl64_r209 [fl64_table]: "fl64 (326510972984361 / 1125899906842624) = 326510972984361 / 1125899906842624"
  using fl64_up [of "326510972984361 / 1125899906842624" 54 5224175567749776] by (simp add: roundHalfEven_def Let_def)

lemma fl64_r210 [fl64_table]: "fl64 (16652059622202411 / 1125899906842624) = 4163014905550603 / 281474976710656"
  using fl64_up [of "16652059622202411 / 1125899906842624" 49 8326029811101206] by (simp add: roundHalfEven_def Let_def)

lemma fl64_r211 [fl64_table]: "fl64 (42) = 42"
  using fl64_up [of "42" 47 5910974510923776] by (simp add: roundHalfEven_def Let_def)

lemma fl64_r212 [fl64_table]: "fl64 (121056757983718935 / 288230376151711744) = 7566047373982433 / 18014398509481984"
  using fl64_up [of "121056757983718935 / 288230376151711744" 54 7566047373982433] by (simp add: roundHalfEven_def Let_def)

lemma fl64_r213 [fl64_table]: "fl64 (1261007895663739 / 4503599627370496) = 1261007895663739 / 4503599627370496"
  using fl64_up [of "1261007895663739 / 4503599627370496" 54 5044031582654956] by (simp add: roundHalfEven_def Let_def)

lemma fl64_r214 [fl64_table]: "fl64 (16393102643628607 / 1125899906842624) = 256142228806697 / 17592186044416"
  using fl64_up [of "16393102643628607 / 1125899906842624" 49 8196551321814304] by (simp add: roundHalfEven_def Let_def)

lemma fl64_r215 [fl64_table]: "fl64 (43) = 43"
  using fl64_up [of "43" 47 6051711999279104] by (simp add: roundHalfEven_def Let_def)

lemma fl64_r216 [fl64_table]: "fl64 (247878123490472105 / 576460752303423488) = 7746191359077253 / 18014398509481984"
  using fl64_up [of "247878123490472105 / 576460752303423488" 54 7746191359077253] by (simp add: roundHalfEven_def Let_def)

lemma fl64_r217 [fl64_table]: "fl64 (1643813863990231 / 2251799813685248) = 1643813863990231 / 2251799813685248"
  using fl64_up [of "1643813863990231 / 2251799813685248" 53 6575255455960924] by (simp add: roundHalfEven_def Let_def)

lemma fl64_r218 [fl64_table]: "fl64 (607985949695017 / 2251799813685248) = 607985949695017 / 2251799813685248"
  using fl64_up [of "607985949695017 / 2251799813685248" 54 4863887597560136] by (simp add: roundHalfEven_def Let_def)

lemma fl64_r219 [fl64_table]: "fl64 (32223255333835901 / 2251799813685248) = 8055813833458975 / 562949953421312"
  using fl64_up [of "32223255333835901 / 2251799813685248" 49 8055813833458975] by (simp add: roundHalfEven_def Let_def)

lemma fl64_r220 [fl64_table]: "fl64 (44) = 44"
  using fl64_up [of "44" 47 6192449487634432] by (simp add: roundHalfEven_def Let_def)

lemma fl64_r221 [fl64_table]: "fl64 (63410682753376585 / 144115188075855872) = 7926335344172073 / 18014398509481984"
  using fl64_up [of "63410682753376585 / 144115188075855872" 54 7926335344172073] by (simp add: roundHalfEven_def Let_def)

lemma fl64_r222 [fl64_table]: "fl64 (31615269384140883 / 2251799813685248) = 7903817346035221 / 562949953421312"
  using fl64_up [of "31615269384140883 / 2251799813685248" 49 7903817346035221] by (simp add: roundHalfEven_def Let_def)

lemma fl64_r223 [fl64_table]: "fl64 (45) = 45"
  using fl64_up [of "45" 47 6333186975989760] by (simp add: roundHalfEven_def Let_def)

lemma fl64_r224 [fl64_table]: "fl64 (259407338536540575 / 576460752303423488) = 8106479329266893 / 18014398509481984"
  using fl64_up [of "259407338536540575 / 576460752303423488" 54 8106479329266893] by (simp add: roundHalfEven_def Let_def)

lemma fl64_r225 [fl64_table]: "fl64 (3 / 4) = 3 / 4"
  using fl64_up [of "3 / 4" 53 6755399441055744] by (simp add: roundHalfEven_def Let_def)

lemma fl64_r226 [fl64_table]: "fl64 (1 / 4) = 1 / 4"
  using fl64_up [of "1 / 4" 54 4503599627370496] by (simp add: roundHalfEven_def Let_def)

lemma fl64_r227 [fl64_table]: "fl64 (55 / 4) = 55 / 4"
  using fl64_up [of "55 / 4" 49 7740561859543040] by (simp add: roundHalfEven_def Let_def)

lemma fl64_r228 [fl64_table]: "fl64 (46) = 46"
  using fl64_up [of "46" 47 6473924464345088] by (simp add: roundHalfEven_def Let_def)

lemma fl64_r229 [fl64_table]: "fl64 (132585973029787405 / 288230376151711744) = 8286623314361713 / 18014398509481984"
  using fl64_up [of "132585973029787405 / 288230376151711744" 54 8286623314361713] by (simp add: roundHalfEven_def Let_def)

lemma fl64_r230 [fl64_table]: "fl64 (3422735716801577 / 4503599627370496) = 3422735716801577 / 4503599627370496"
  using fl64_up [of "3422735716801577 / 4503599627370496" 53 6845471433603154] by (simp add: roundHalfEven_def Let_def)

lemma fl64_r231 [fl64_table]: "fl64 (1080863910568919 / 4503599627370496) = 1080863910568919 / 4503599627370496"
  using fl64_up [of "1080863910568919 / 4503599627370496" 55 8646911284551352] by (simp add: roundHalfEven_def Let_def)

lemma fl64_r232 [fl64_table]: "fl64 (7566047373982433 / 562949953421312) = 7566047373982433 / 562949953421312"
  using fl64_up [of "7566047373982433 / 562949953421312" 49 7566047373982433] by (simp add: roundHalfEven_def Let_def)

lemma fl64_r233 [fl64_table]: "fl64 (47) = 47"
  using fl64_up [of "47" 47 6614661952700416] by (simp add: roundHalfEven_def Let_def)

lemma fl64_r234 [fl64_table]: "fl64 (270936553582609045 / 576460752303423488) = 8466767299456533 / 18014398509481984"
  using fl64_up [of "270936553582609045 / 576460752303423488" 54 8466767299456533] by (simp add: roundHalfEven_def Let_def)

lemma fl64_r235 [fl64_table]: "fl64 (1733885856537641 / 2251799813685248) = 1733885856537641 / 2251799813685248"
  using fl64_up [of "1733885856537641 / 2251799813685248" 53 6935543426150564] by (simp add: roundHalfEven_def Let_def)

lemma fl64_r236 [fl64_table]: "fl64 (517913957147607 / 2251799813685248) = 517913957147607 / 2251799813685248"
  using fl64_up [of "517913957147607 / 2251799813685248" 55 8286623314361712] by (simp add: roundHalfEven_def Let_def)

lemma fl64_r237 [fl64_table]: "fl64 (29521095557413599 / 2251799813685248) = 922534236169175 / 70368744177664"
  using fl64_up [of "29521095557413599 / 2251799813685248" 49 7380273889353400] by (simp add: roundHalfEven_def Let_def)

lemma fl64_r238 [fl64_table]: "fl64 (48) = 48"
  using fl64_up [of "48" 47 6755399441055744] by (simp add: roundHalfEven_def Let_def)

lemma fl64_r239 [fl64_table]: "fl64 (17293822569102705 / 36028797018963968) = 1080863910568919 / 2251799813685248"
  using fl64_up [of "17293822569102705 / 36028797018963968" 54 8646911284551352] by (simp add: roundHalfEven_def Let_def)

lemma fl64_r240 [fl64_table]: "fl64 (14051230837395947 / 18014398509481984) = 3512807709348987 / 4503599627370496"
  using fl64_up [of "14051230837395947 / 18014398509481984" 53 7025615418697974] by (simp add: roundHalfEven_def Let_def)

lemma fl64_r241 [fl64_table]: "fl64 (990791918021509 / 4503599627370496) = 990791918021509 / 4503599627370496"
  using fl64_up [of "990791918021509 / 4503599627370496" 55 7926335344172072] by (simp add: roundHalfEven_def Let_def)

lemma fl64_r242 [fl64_table]: "fl64 (28732965622623761 / 2251799813685248) = 1795810351413985 / 140737488355328"
  using fl64_up [of "28732965622623761 / 2251799813685248" 49 7183241405655940] by (simp add: roundHalfEven_def Let_def)

lemma fl64_r243 [fl64_table]: "fl64 (49) = 49"
  using fl64_up [of "49" 47 6896136929411072] by (simp add: roundHalfEven_def Let_def)

lemma fl64_r244 [fl64_table]: "fl64 (282465768628677515 / 576460752303423488) = 2206763817411543 / 4503599627370496"
  using fl64_up [of "282465768628677515 / 576460752303423488" 54 8827055269646172] by (simp add: roundHalfEven_def Let_def)

lemma fl64_r245 [fl64_table]: "fl64 (14231374822490767 / 18014398509481984) = 889460926405673 / 1125899906842624"
  using fl64_up [of "14231374822490767 / 18014398509481984" 53 7115687411245384] by (simp add: roundHalfEven_def Let_def)

lemma fl64_r246 [fl64_table]: "fl64 (236438980436951 / 1125899906842624) = 236438980436951 / 1125899906842624"
  using fl64_up [of "236438980436951 / 1125899906842624" 55 7566047373982432] by (simp add: roundHalfEven_def Let_def)

lemma fl64_r247 [fl64_table]: "fl64 (13949899845780109 / 1125899906842624) = 3487474961445027 / 281474976710656"
  using fl64_up [of "13949899845780109 / 1125899906842624" 49 6974949922890054] by (simp add: roundHalfEven_def Let_def)

lemma fl64_r248 [fl64_table]: "fl64 (50) = 50"
  using fl64_up [of "50" 47 7036874417766400] by (simp add: roundHalfEven_def Let_def)

lemma fl64_r249 [fl64_table]: "fl64 (144115188075855875 / 288230376151711744) = 1 / 2"
  using fl64_up [of "144115188075855875 / 288230376151711744" 53 4503599627370496] by (simp add: roundHalfEven_def Let_def)

lemma fl64_r250 [fl64_table]: "fl64 (900719925474099 / 4503599627370496) = 900719925474099 / 4503599627370496"
  using fl64_up [of "900719925474099 / 4503599627370496" 55 7205759403792792] by (simp add: roundHalfEven_def Let_def)

lemma fl64_r251 [fl64_table]: "fl64 (13510798882111485 / 1125899906842624) = 3377699720527871 / 281474976710656"
  using fl64_up [of "13510798882111485 / 1125899906842624" 49 6755399441055742] by (simp add: roundHalfEven_def Let_def)

lemma fl64_r252 [fl64_table]: "fl64 (90) = 90"
  using fl64_up [of "90" 46 6333186975989760] by (simp add: roundHalfEven_def Let_def)

lemma fl64_r253 [fl64_table]: "fl64 (259407338536540575 / 288230376151711744) = 8106479329266893 / 9007199254740992"
  using fl64_up [of "259407338536540575 / 288230376151711744" 53 8106479329266893] by (simp add: roundHalfEven_def Let_def)

lemma fl64_r254 [fl64_table]: "fl64 (21617278211378381 / 18014398509481984) = 5404319552844595 / 4503599627370496"
  using fl64_up [of "21617278211378381 / 18014398509481984" 52 5404319552844595] by (simp add: roundHalfEven_def Let_def)

lemma fl64_r255 [fl64_table]: "fl64 (22517998136852475 / 1125899906842624) = 5629499534213119 / 281474976710656"
  using fl64_up [of "22517998136852475 / 1125899906842624" 48 5629499534213119] by (simp add: roundHalfEven_def Let_def)

lemma fl64_r256 [fl64_table]: "fl64 (3096224743817217 / 281474976710656) = 3096224743817217 / 281474976710656"
  using fl64_up [of "3096224743817217 / 281474976710656" 49 6192449487634434] by (simp add: roundHalfEven_def Let_def)

lemma fl64_r257 [fl64_table]: "fl64 (17848520451213476109228073423995 / 162259276829213363391578010288128) = 1981583836043019 / 18014398509481984"
  using fl64_up [of "17848520451213476109228073423995 / 162259276829213363391578010288128" 56 7926335344172076] by (simp add: roundHalfEven_def Let_def)

lemma fl64_r258 [fl64_table]: "fl64 (31412381873655528228263002667745 / 2535301200456458802993406410752) = 871868740361257 / 70368744177664"
  using fl64_up [of "31412381873655528228263002667745 / 2535301200456458802993406410752" 49 6974949922890056] by (simp add: roundHalfEven_def Let_def)

lemma fl64_r259 [fl64_table]: "fl64 (51) = 51"
  using fl64_up [of "51" 47 7177611906121728] by (simp add: roundHalfEven_def Let_def)

lemma fl64_r260 [fl64_table]: "fl64 (52) = 52"
  using fl64_up [of "52" 47 7318349394477056] by (simp add: roundHalfEven_def Let_def)

lemma fl64_r261 [fl64_table]: "fl64 (53) = 53"
  using fl64_up [of "53" 47 7459086882832384] by (simp add: roundHalfEven_def Let_def)

lemma fl64_r262 [fl64_table]: "fl64 (54) = 54"
  using fl64_up [of "54" 47 7599824371187712] by (simp add: roundHalfEven_def Let_def)

lemma fl64_r263 [fl64_table]: "fl64 (55) = 55"
  using fl64_up [of "55" 47 7740561859543040] by (simp add: roundHalfEven_def Let_def)

lemma fl64_r264 [fl64_table]: "fl64 (56) = 56"
  using fl64_up [of "56" 47 7881299347898368] by (simp add: roundHalfEven_def Let_def)

lemma fl64_r265 [fl64_table]: "fl64 (57) = 57"
  using fl64_up [of "57" 47 8022036836253696] by (simp add: roundHalfEven_def Let_def)

lemma fl64_r266 [fl64_table]: "fl64 (58) = 58"
  using fl64_up [of "58" 47 8162774324609024] by (simp add: roundHalfEven_def Let_def)

lemma fl64_r267 [fl64_table]: "fl64 (59) = 59"
  using fl64_up [of "59" 47 8303511812964352] by (simp add: roundHalfEven_def Let_def)

lemma fl64_r268 [fl64_table]: "fl64 (60) = 60"
  using fl64_up [of "60" 47 8444249301319680] by (simp add: roundHalfEven_def Let_def)

lemma fl64_r269 [fl64_table]: "fl64 (100) = 100"
  using fl64_up [of "100" 46 7036874417766400] by (simp add: roundHalfEven_def Let_def)

subsection \<open>The values\<close>




































































section \<open>The font-size search\<close>

lemma fitLoop_unfold:
  "fitLoop m tb mn tg fs it =
    (if fs \<ge> mn \<and> it < 20 then
       (if fitsAt m tb fs then Some (fitResult m tg fs)
        else fitLoop m tb mn tg (max mn (fs - 1)) (Suc it))
     else None)"
  by (subst fitLoop.simps) (simp add: fitsAt_def fitResult_def Let_def)





text \<open>
  Claim C10.  \<open>autoFitBubbleText\<close> returns its input with at most the font size changed, and
  the input itself for a text-only bubble, an empty text or the placeholder text.  (The
  older copy of the function in the repository has the same text.)
\<close>

theorem autoFitBubbleText_frame:
  "(\<exists>fs. autoFitBubbleText ctx b ff = b\<lparr>b_fontSize := fs\<rparr>)
   \<and> (b_type b = TextOnly \<or> b_text b = [] \<or> b_text b = ''Votre texte ici''
        \<longrightarrow> autoFitBubbleText ctx b ff = b)"
proof
  show "\<exists>fs. autoFitBubbleText ctx b ff = b\<lparr>b_fontSize := fs\<rparr>"
  proof (cases "autoFitBubbleText ctx b ff = b")
    case True
    then have "autoFitBubbleText ctx b ff = b\<lparr>b_fontSize := b_fontSize b\<rparr>" by simp
    then show ?thesis ..
  next
    case False
    then have "autoFitBubbleText ctx b ff
        = b\<lparr>b_fontSize := fit_fontSize (calculateOptimalFontSize ctx (b_text b) b ff 8 40)\<rparr>"
      by (auto simp: autoFitBubbleText_def Let_def split: if_splits)
    then show ?thesis ..
  qed
next
  show "b_type b = TextOnly \<or> b_text b = [] \<or> b_text b = ''Votre texte ici''
        \<longrightarrow> autoFitBubbleText ctx b ff = b"
    by (simp add: autoFitBubbleText_def)
qed

theorem autoFitBubbleText_frame_witness:
  "b_type textOnlyBubble = TextOnly
   \<and> autoFitBubbleText monoCanvas textOnlyBubble ''Arial'' = textOnlyBubble
   \<and> autoFitBubbleText monoCanvas speechBubble ''Comic Neue'' = speechBubble"
  using autoFitBubbleText_frame [of monoCanvas textOnlyBubble "''Arial''"]
    autoFitBubbleText_frame [of monoCanvas speechBubble "''Comic Neue''"]
  by (simp add: textOnlyBubble_def speechBubble_def)

section \<open>Resizing\<close>

text \<open>
  Claim C7.  A resize gives a width of at least \<open>MIN_BUBBLE_WIDTH\<close> (50) and a height of at
  least \<open>MIN_BUBBLE_HEIGHT\<close> (30), whatever the bubble and the pointer; and every pointer
  move, in any mode, keeps a bubble that meets the minimums within them.
\<close>

theorem resize_respects_minimums:
  "(i_mode interaction = Some Resize \<longrightarrow>
      MIN_BUBBLE_WIDTH \<le> b_width (handleMouseMove interaction bubble clientX clientY)
      \<and> MIN_BUBBLE_HEIGHT \<le> b_height (handleMouseMove interaction bubble clientX clientY))
   \<and> (MIN_BUBBLE_WIDTH \<le> b_width bubble \<and> MIN_BUBBLE_HEIGHT \<le> b_height bubble \<longrightarrow>
      MIN_BUBBLE_WIDTH \<le> b_width (handleMouseMove interaction bubble clientX clientY)
      \<and> MIN_BUBBLE_HEIGHT \<le> b_height (handleMouseMove interaction bubble clientX clientY))"
proof -
  have resize: "MIN_BUBBLE_WIDTH \<le> b_width (resizeBubble interaction bubble dx dy)
      \<and> MIN_BUBBLE_HEIGHT \<le> b_height (resizeBubble interaction bubble dx dy)" for dx dy
    by (simp add: resizeBubble_def Let_def)
  show ?thesis
  proof (cases "i_mode interaction")
    case None
    then show ?thesis by (simp add: handleMouseMove_def)
  next
    case (Some md)
    then show ?thesis
      using resize
      by (cases md)
        (simp_all add: handleMouseMove_def Let_def split: option.split BubblePart.split)
  qed
qed

theorem resize_respects_minimums_witness:
  "i_mode resizeGesture = Some Resize
   \<and> b_width (handleMouseMove resizeGesture speechBubble 300 220) = 200
   \<and> b_height (handleMouseMove resizeGesture speechBubble 300 220) = 120
   \<and> b_width (handleMouseMove resizeGesture speechBubble 0 0) = 50
   \<and> b_height (handleMouseMove resizeGesture speechBubble 0 0) = 30
   \<and> MIN_BUBBLE_WIDTH \<le> b_width (handleMouseMove resizeGesture speechBubble 0 0)
   \<and> MIN_BUBBLE_HEIGHT \<le> b_height (handleMouseMove resizeGesture speechBubble 0 0)"
  using resize_respects_minimums [of resizeGesture speechBubble 0 0]
  by (simp add: handleMouseMove_def resizeBubble_def resizeGesture_def handleIncludes_def
      MIN_BUBBLE_WIDTH_def MIN_BUBBLE_HEIGHT_def Let_def)

section \<open>Exhausted searches\<close>

lemma fitLoop_exhausted:
  assumes "\<And>s. mn \<le> s \<Longrightarrow> \<not> fitsAt m tb s"
  shows "fitLoop m tb mn tg fs it = None"
proof (induction "20 - it" arbitrary: it fs)
  case 0
  then show ?case by (simp add: fitLoop_unfold [of m tb mn tg fs it])
next
  case (Suc n)
  then have n: "n = 20 - Suc it" by simp
  show ?case
    using assms [of fs] Suc.hyps(1) [OF n, of "max mn (fs - 1)"]
    by (simp add: fitLoop_unfold [of m tb mn tg fs it])
qed

text \<open>What the source returns when the loop runs out: the minimum size, and \<open>fits\<close> read
  from the height alone.\<close>

lemma calculateOptimalFontSize_exhausted:
  assumes "\<And>s. minFontSize \<le> s \<Longrightarrow>
      \<not> fitsAt (\<lambda>fontSize. measureText ctx t fontFamily fontSize (tb_width (getTextBounds bubble)))
           (getTextBounds bubble) s"
  shows "fit_fontSize (calculateOptimalFontSize ctx t bubble fontFamily minFontSize maxFontSize)
           = minFontSize
    \<and> fit_fits (calculateOptimalFontSize ctx t bubble fontFamily minFontSize maxFontSize)
           = (dim_height (measureText ctx t fontFamily minFontSize (tb_width (getTextBounds bubble)))
                \<le> tb_height (getTextBounds bubble))"
  using fitLoop_exhausted [OF assms]
  by (simp add: calculateOptimalFontSize_def fitFallback_def Let_def)

lemma measureText_longWord:
  "measureText monoCanvas ''Anticonstitutionnellement'' ff fs W
    = \<lparr>dim_width = Finite (fs * 0.6 * 25), dim_height = fs + getLineHeightOffset fs, dim_lines = 1\<rparr>"
  by (simp add: measureText_def monoCanvas_def isSpace_def Let_def)

lemma getTextBounds_longWordBubble:
  "getTextBounds longWordBubble = \<lparr>tb_width = 83, tb_height = 54.9, tb_x = 8.5, tb_y = 2.55\<rparr>"
  by (simp add: getTextBounds_def longWordBubble_def Let_def)

text \<open>The long word fits the bounds of \<open>longWordBubble\<close> at no size from 8 upwards: at size
  \<open>s\<close> it is \<open>15 * s\<close> wide, and the bounds are 83 wide.\<close>

lemma longWord_never_fits:
  assumes "8 \<le> s"
  shows "\<not> fitsAt (\<lambda>fontSize. measureText monoCanvas ''Anticonstitutionnellement'' ff fontSize 83)
           (getTextBounds longWordBubble) s"
  using assms by (simp add: fitsAt_def measureText_longWord getTextBounds_longWordBubble)

text \<open>
  Claim C3, at the failing input.  No size from 8 to 12 makes the word fit
  (\<open>longWord_never_fits\<close>), and the source returns the minimum size 8, yet with
  \<open>fits = true\<close>: after the loop it compares the height only, and the one line is 13.92
  high in bounds 54.9 high, while it is 120 wide in bounds 83 wide.
\<close>

theorem calculateOptimalFontSize_fallback_ignores_width:
  "calculateOptimalFontSize monoCanvas (b_text longWordBubble) longWordBubble ''Comic Neue'' 8 40
    = \<lparr>fit_fontSize = 8, fit_textWidth = Finite 120, fit_textHeight = 13.92, fit_fits = True,
       fit_scaleFactor = 8 / 12\<rparr>
   \<and> tb_width (getTextBounds longWordBubble) = 83
   \<and> tb_height (getTextBounds longWordBubble) = 54.9"
proof -
  have word_eq: "b_text longWordBubble = ''Anticonstitutionnellement''"
    by (simp add: longWordBubble_def)
  have "fitLoop (\<lambda>fontSize. measureText monoCanvas ''Anticonstitutionnellement'' ''Comic Neue'' fontSize 83)
          (getTextBounds longWordBubble) 8 12 12 0 = None"
    by (rule fitLoop_exhausted) (rule longWord_never_fits)
  moreover have "b_fontSize longWordBubble = 12" by (simp add: longWordBubble_def)
  moreover have "getLineHeightOffset 8 = 5.92"
    by (simp add: getLineHeightOffset_def lineHeightReduction_def)
  ultimately show ?thesis
    by (simp add: calculateOptimalFontSize_def word_eq getTextBounds_longWordBubble fitFallback_def
        measureText_longWord Let_def)
qed

section \<open>What the search measures\<close>


subsection \<open>Tags\<close>





subsection \<open>Words\<close>






subsection \<open>Lines\<close>










subsection \<open>The measured block\<close>


















section \<open>The tail of a speech bubble\<close>

lemma quadCurves_roundedRect: "quadCurves (roundedRect r w h) = []"
  by (simp add: quadCurves_def commands_def roundedRect_def)

lemma quadCurves_pathTailBottom:
  "quadCurves (pathTailBottom r w h rb (createTailPath cby tx ty s e)) = tailCurves cby tx ty s e"
  by (simp add: quadCurves_def commands_def pathTailBottom_def createTailPath_def tailCurves_def
      Let_def)

lemma quadCurves_pathTailTop:
  "quadCurves (pathTailTop r w h lb (createTailPath cby tx ty s e)) = tailCurves cby tx ty s e"
  by (simp add: quadCurves_def commands_def pathTailTop_def createTailPath_def tailCurves_def
      Let_def)

lemma quadCurves_pathTailRight:
  "quadCurves (pathTailRight r w h tb (createTailPath cby tx ty s e)) = tailCurves cby tx ty s e"
  by (simp add: quadCurves_def commands_def pathTailRight_def createTailPath_def tailCurves_def
      Let_def)

lemma quadCurves_pathTailLeft:
  "quadCurves (pathTailLeft r w h bb (createTailPath cby tx ty s e)) = tailCurves cby tx ty s e"
  by (simp add: quadCurves_def commands_def pathTailLeft_def createTailPath_def tailCurves_def
      Let_def)

lemmas quadCurves_templates =
  quadCurves_roundedRect quadCurves_pathTailBottom quadCurves_pathTailTop
  quadCurves_pathTailRight quadCurves_pathTailLeft

lemma quadCurves_speechPath:
  "quadCurves (speechPath r w h tail) =
    (let halfBase = baseWidth tail / 2;
         cbx = max 0 (min w (baseCX tail));
         cby = max 0 (min h (baseCY tail));
         curves = tailCurves cby (tipX tail) (tipY tail)
     in if cby = h then curves (min (w - r) (cbx + halfBase), h) (max r (cbx - halfBase), h)
        else if cby = 0 then curves (max r (cbx - halfBase), 0) (min (w - r) (cbx + halfBase), 0)
        else if cbx = w then curves (w, max r (cby - halfBase)) (w, min (h - r) (cby + halfBase))
        else if cbx = 0 then curves (0, min (h - r) (cby + halfBase)) (0, max r (cby - halfBase))
        else [])"
  unfolding speechPath_def Let_def
  by (simp only: quadCurves_templates if_distrib [of quadCurves] if_cancel)

lemma tailCurves_nonempty: "tailCurves cby tx ty s e \<noteq> []"
  by (simp add: tailCurves_def)

lemma if_chain_nonempty:
  assumes "x1 \<noteq> []" "x2 \<noteq> []" "x3 \<noteq> []" "x4 \<noteq> []"
  shows "((if c1 then x1 else if c2 then x2 else if c3 then x3 else if c4 then x4 else []) \<noteq> [])
    = (c1 \<or> c2 \<or> c3 \<or> c4)"
  using assms by simp

lemma generateBubblePaths_speech_tail:
  assumes "b_type b = SpeechDown \<or> b_type b = SpeechUp \<or> b_type b = Whisper"
    and "findTail (b_parts b) = Some tail"
  shows "bodyPath (generateBubblePaths b)
    = speechPath (min (b_width b) (b_height b) / 2) (b_width b) (b_height b) tail"
  using assms by (auto simp: generateBubblePaths_def Let_def)

lemma clamp_on_upper_edge:
  fixes v d :: real
  assumes "0 < d"
  shows "(max 0 (min d v) = d) = (d \<le> v)"
  using assms by (auto simp: max_def min_def)

lemma clamp_on_lower_edge:
  fixes v d :: real
  assumes "0 < d"
  shows "(max 0 (min d v) = 0) = (v \<le> 0)"
  using assms by (auto simp: max_def min_def)

lemma clamp_interior:
  fixes v d :: real
  assumes "0 < v" "v < d"
  shows "max 0 (min d v) = v"
  using assms by (simp add: max_def min_def)

text \<open>
  Claim C5, as amended.  For a speech bubble (down, up or whisper) of positive width and
  height that carries a tail, the outline contains the tail's curves exactly when the base
  point, clamped into the rectangle, lies on an edge: \<open>baseCY \<ge> height\<close>, \<open>baseCY \<le> 0\<close>,
  \<open>baseCX \<ge> width\<close> or \<open>baseCX \<le> 0\<close>.  The comparison is exact: no tolerance is applied.
  With the base point strictly inside, the outline is the plain pill.
\<close>

theorem tail_cut_iff_base_on_edge:
  assumes "b_type b = SpeechDown \<or> b_type b = SpeechUp \<or> b_type b = Whisper"
    and "findTail (b_parts b) = Some tail"
    and "0 < b_width b" and "0 < b_height b"
  shows "(quadCurves (bodyPath (generateBubblePaths b)) \<noteq> [])
      = (b_height b \<le> baseCY tail \<or> baseCY tail \<le> 0
          \<or> b_width b \<le> baseCX tail \<or> baseCX tail \<le> 0)
    \<and> (0 < baseCX tail \<and> baseCX tail < b_width b \<and> 0 < baseCY tail \<and> baseCY tail < b_height b
        \<longrightarrow> bodyPath (generateBubblePaths b)
            = roundedRect (min (b_width b) (b_height b) / 2) (b_width b) (b_height b))"
proof
  have "(quadCurves (speechPath (min (b_width b) (b_height b) / 2) (b_width b) (b_height b) tail) \<noteq> [])
      = (max 0 (min (b_height b) (baseCY tail)) = b_height b
          \<or> max 0 (min (b_height b) (baseCY tail)) = 0
          \<or> max 0 (min (b_width b) (baseCX tail)) = b_width b
          \<or> max 0 (min (b_width b) (baseCX tail)) = 0)"
    unfolding quadCurves_speechPath Let_def
    by (rule if_chain_nonempty) (rule tailCurves_nonempty)+
  then show "(quadCurves (bodyPath (generateBubblePaths b)) \<noteq> [])
      = (b_height b \<le> baseCY tail \<or> baseCY tail \<le> 0
          \<or> b_width b \<le> baseCX tail \<or> baseCX tail \<le> 0)"
    unfolding generateBubblePaths_speech_tail [OF assms(1,2)]
    by (simp only: clamp_on_upper_edge [OF assms(3)] clamp_on_lower_edge [OF assms(3)]
        clamp_on_upper_edge [OF assms(4)] clamp_on_lower_edge [OF assms(4)])
next
  show "0 < baseCX tail \<and> baseCX tail < b_width b \<and> 0 < baseCY tail \<and> baseCY tail < b_height b
        \<longrightarrow> bodyPath (generateBubblePaths b)
            = roundedRect (min (b_width b) (b_height b) / 2) (b_width b) (b_height b)"
  proof
    assume inside: "0 < baseCX tail \<and> baseCX tail < b_width b
      \<and> 0 < baseCY tail \<and> baseCY tail < b_height b"
    then have cx: "max 0 (min (b_width b) (baseCX tail)) = baseCX tail"
      and cy: "max 0 (min (b_height b) (baseCY tail)) = baseCY tail"
      by (simp_all add: clamp_interior)
    show "bodyPath (generateBubblePaths b)
            = roundedRect (min (b_width b) (b_height b) / 2) (b_width b) (b_height b)"
      unfolding generateBubblePaths_speech_tail [OF assms(1,2)] speechPath_def Let_def cx cy
      using inside by simp
  qed
qed

theorem tail_cut_iff_base_on_edge_witness:
  "(b_type speechBubble = SpeechDown \<or> b_type speechBubble = SpeechUp
      \<or> b_type speechBubble = Whisper)
   \<and> findTail (b_parts speechBubble) = Some bottomTail
   \<and> 0 < b_width speechBubble \<and> 0 < b_height speechBubble
   \<and> b_height speechBubble \<le> baseCY bottomTail
   \<and> quadCurves (bodyPath (generateBubblePaths speechBubble)) \<noteq> []"
  using tail_cut_iff_base_on_edge [of speechBubble bottomTail]
  by (simp add: speechBubble_def bottomTail_def)

text \<open>
  Claim C5 as stated fails: the base point \<open>(75, 89.99995)\<close> of \<open>nearEdgeBubble\<close> is within
  0.0001 of the bottom edge of a bubble 90 high, and the outline has no tail curve.
\<close>

theorem tail_near_edge_not_drawn:
  "b_type nearEdgeBubble = SpeechDown
   \<and> findTail (b_parts nearEdgeBubble) = Some nearEdgeTail
   \<and> nearEdge 0.0001 (b_width nearEdgeBubble) (b_height nearEdgeBubble) nearEdgeTail
   \<and> quadCurves (bodyPath (generateBubblePaths nearEdgeBubble)) = []"
proof -
  have ty: "b_type nearEdgeBubble = SpeechDown"
    and tl: "findTail (b_parts nearEdgeBubble) = Some nearEdgeTail"
    by (simp_all add: nearEdgeBubble_def speechBubble_def)
  have near: "nearEdge 0.0001 (b_width nearEdgeBubble) (b_height nearEdgeBubble) nearEdgeTail"
    by (simp add: nearEdge_def nearEdgeBubble_def speechBubble_def nearEdgeTail_def bottomTail_def)
  have "bodyPath (generateBubblePaths nearEdgeBubble) = speechPath 45 150 90 nearEdgeTail"
    using generateBubblePaths_speech_tail [of nearEdgeBubble nearEdgeTail] ty tl
    by (simp add: nearEdgeBubble_def speechBubble_def)
  moreover have "quadCurves (speechPath 45 150 90 nearEdgeTail) = []"
    by (simp add: quadCurves_speechPath nearEdgeTail_def bottomTail_def Let_def)
  ultimately show ?thesis using ty tl near by simp
qed

lemma quadCurves_tailCommands:
  "map snd (filter (\<lambda>cmd. fst cmd = CHR ''Q'') (tailCommands cby tx ty s e)) = tailCurves cby tx ty s e"
  by (simp add: tailCommands_def tailCurves_def)

lemma commands_pathTailBottom:
  "commands (pathTailBottom r w h rb (createTailPath cby tx ty s e)) =
    [(CHR ''M'', [r, 0]), (CHR ''L'', [w - r, 0]), (CHR ''A'', [r, r, 0, 0, 1, w, r]),
     (CHR ''L'', [w, h - r]), (CHR ''A'', [r, r, 0, 0, 1, w - r, h]), (CHR ''L'', [rb, h])]
    @ tailCommands cby tx ty s e
    @ [(CHR ''L'', [r, h]), (CHR ''A'', [r, r, 0, 0, 1, 0, h - r]), (CHR ''L'', [0, r]),
       (CHR ''A'', [r, r, 0, 0, 1, r, 0]), (CHR ''Z'', [])]"
  by (simp add: commands_def pathTailBottom_def createTailPath_def tailCommands_def Let_def)

lemma commands_pathTailTop:
  "commands (pathTailTop r w h lb (createTailPath cby tx ty s e)) =
    [(CHR ''M'', [r, 0]), (CHR ''L'', [lb, 0])]
    @ tailCommands cby tx ty s e
    @ [(CHR ''L'', [w - r, 0]), (CHR ''A'', [r, r, 0, 0, 1, w, r]), (CHR ''L'', [w, h - r]),
       (CHR ''A'', [r, r, 0, 0, 1, w - r, h]), (CHR ''L'', [r, h]),
       (CHR ''A'', [r, r, 0, 0, 1, 0, h - r]), (CHR ''L'', [0, r]),
       (CHR ''A'', [r, r, 0, 0, 1, r, 0]), (CHR ''Z'', [])]"
  by (simp add: commands_def pathTailTop_def createTailPath_def tailCommands_def Let_def)

lemma commands_pathTailRight:
  "commands (pathTailRight r w h tb (createTailPath cby tx ty s e)) =
    [(CHR ''M'', [r, 0]), (CHR ''L'', [w - r, 0]), (CHR ''A'', [r, r, 0, 0, 1, w, r]),
     (CHR ''L'', [w, tb])]
    @ tailCommands cby tx ty s e
    @ [(CHR ''L'', [w, h - r]), (CHR ''A'', [r, r, 0, 0, 1, w - r, h]), (CHR ''L'', [r, h]),
       (CHR ''A'', [r, r, 0, 0, 1, 0, h - r]), (CHR ''L'', [0, r]),
       (CHR ''A'', [r, r, 0, 0, 1, r, 0]), (CHR ''Z'', [])]"
  by (simp add: commands_def pathTailRight_def createTailPath_def tailCommands_def Let_def)

lemma commands_pathTailLeft:
  "commands (pathTailLeft r w h bb (createTailPath cby tx ty s e)) =
    [(CHR ''M'', [r, 0]), (CHR ''L'', [w - r, 0]), (CHR ''A'', [r, r, 0, 0, 1, w, r]),
     (CHR ''L'', [w, h - r]), (CHR ''A'', [r, r, 0, 0, 1, w - r, h]), (CHR ''L'', [r, h]),
     (CHR ''A'', [r, r, 0, 0, 1, 0, h - r]), (CHR ''L'', [0, bb])]
    @ tailCommands cby tx ty s e
    @ [(CHR ''L'', [0, r]), (CHR ''A'', [r, r, 0, 0, 1, r, 0]), (CHR ''Z'', [])]"
  by (simp add: commands_def pathTailLeft_def createTailPath_def tailCommands_def Let_def)

lemma commands_speechPath_drawn:
  assumes "max 0 (min h (baseCY tail)) = h \<or> max 0 (min h (baseCY tail)) = 0
    \<or> max 0 (min w (baseCX tail)) = w \<or> max 0 (min w (baseCX tail)) = 0"
  shows "\<exists>pre post. commands (speechPath r w h tail)
    = pre @ tailCommands (max 0 (min h (baseCY tail))) (tipX tail) (tipY tail)
              (fst (tailBasePoints r w h tail)) (snd (tailBasePoints r w h tail)) @ post"
proof -
  consider (bottom) "max 0 (min h (baseCY tail)) = h"
    | (top) "max 0 (min h (baseCY tail)) \<noteq> h" "max 0 (min h (baseCY tail)) = 0"
    | (right) "max 0 (min h (baseCY tail)) \<noteq> h" "max 0 (min h (baseCY tail)) \<noteq> 0"
        "max 0 (min w (baseCX tail)) = w"
    | (left) "max 0 (min h (baseCY tail)) \<noteq> h" "max 0 (min h (baseCY tail)) \<noteq> 0"
        "max 0 (min w (baseCX tail)) \<noteq> w" "max 0 (min w (baseCX tail)) = 0"
    using assms by blast
  then show ?thesis
  proof cases
    case bottom
    then show ?thesis
      unfolding speechPath_def tailBasePoints_def Let_def
      by (simp only: simp_thms if_True commands_pathTailBottom fst_conv snd_conv) blast
  next
    case top
    then show ?thesis
      unfolding speechPath_def tailBasePoints_def Let_def
      by (simp only: simp_thms if_True if_False commands_pathTailTop fst_conv snd_conv) blast
  next
    case right
    then show ?thesis
      unfolding speechPath_def tailBasePoints_def Let_def
      by (simp only: simp_thms if_True if_False commands_pathTailRight fst_conv snd_conv) blast
  next
    case left
    then show ?thesis
      unfolding speechPath_def tailBasePoints_def Let_def
      by (simp only: simp_thms if_True if_False commands_pathTailLeft fst_conv snd_conv) blast
  qed
qed

lemma quadCurves_speechPath_drawn:
  assumes "quadCurves (speechPath r w h tail) \<noteq> []"
  shows "quadCurves (speechPath r w h tail)
    = tailCurves (max 0 (min h (baseCY tail))) (tipX tail) (tipY tail)
        (fst (tailBasePoints r w h tail)) (snd (tailBasePoints r w h tail))"
  using assms unfolding quadCurves_speechPath tailBasePoints_def Let_def
  by (simp only: if_distrib [of fst] if_distrib [of snd] fst_conv snd_conv split: if_split_asm)
    simp_all

lemma speechPath_drawn_on_edge:
  assumes "quadCurves (speechPath r w h tail) \<noteq> []"
  shows "max 0 (min h (baseCY tail)) = h \<or> max 0 (min h (baseCY tail)) = 0
    \<or> max 0 (min w (baseCX tail)) = w \<or> max 0 (min w (baseCX tail)) = 0"
proof -
  have "(quadCurves (speechPath r w h tail) \<noteq> [])
      = (max 0 (min h (baseCY tail)) = h \<or> max 0 (min h (baseCY tail)) = 0
          \<or> max 0 (min w (baseCX tail)) = w \<or> max 0 (min w (baseCX tail)) = 0)"
    unfolding quadCurves_speechPath Let_def
    by (rule if_chain_nonempty) (rule tailCurves_nonempty)+
  then show ?thesis using assms by simp
qed

text \<open>
  Claim C6, as amended.  For every drawn tail the clamped base centre lies on an edge, and
  the outline visits a first base point, then one quadratic curve to the tip and one from
  the tip to a second base point.  Along the edge the two base points are the clamped
  base centre minus and plus half the base width, each clamped into the straight part of
  the edge, between \<open>r\<close> and the extent minus \<open>r\<close> with \<open>r\<close> half the smaller dimension; on
  the bottom and left edges the outline visits the one clamped from above first.  They
  lie half a base width on either side of the centre when the base is within the straight
  part.  On a bubble at least as wide as high the sides have no straight part: there the
  point clamped from above is at most half the height and the point clamped from below at
  least half the height, so the two coincide or come in the reverse order; likewise along
  the top and bottom of a bubble at least as high as wide.  The control point of each
  curve has its \<open>x\<close> a quarter of the way from the base point's \<open>x\<close> to the tip's, and its
  \<open>y\<close> half way between the \<open>y\<close> of the clamped base centre and the tip's, on every edge.
\<close>

theorem tail_cut_control_points:
  assumes "b_type b = SpeechDown \<or> b_type b = SpeechUp \<or> b_type b = Whisper"
    and "findTail (b_parts b) = Some tail"
    and "quadCurves (bodyPath (generateBubblePaths b)) \<noteq> []"
  shows "let w = b_width b; h = b_height b; r = min w h / 2;
             halfBase = baseWidth tail / 2;
             cbx = max 0 (min w (baseCX tail));
             cby = max 0 (min h (baseCY tail));
             lowX = max r (cbx - halfBase);
             highX = min (w - r) (cbx + halfBase);
             lowY = max r (cby - halfBase);
             highY = min (h - r) (cby + halfBase);
             pts = (if cby = h then ((highX, h), (lowX, h))
                    else if cby = 0 then ((lowX, 0), (highX, 0))
                    else if cbx = w then ((w, lowY), (w, highY))
                    else ((0, highY), (0, lowY)));
             startPt = fst pts;
             endPt = snd pts;
             midY = cby + (tipY tail - cby) * 0.5
         in (cby = h \<or> cby = 0 \<or> cbx = w \<or> cbx = 0)
          \<and> (\<exists>pre post. commands (bodyPath (generateBubblePaths b))
                = pre @ [(CHR ''L'', [fst startPt, snd startPt]),
                         (CHR ''Q'', [fst startPt + (tipX tail - fst startPt) * 0.25, midY,
                                      tipX tail, tipY tail]),
                         (CHR ''Q'', [fst endPt + (tipX tail - fst endPt) * 0.25, midY,
                                      fst endPt, snd endPt])] @ post)
          \<and> quadCurves (bodyPath (generateBubblePaths b))
              = [[fst startPt + (tipX tail - fst startPt) * 0.25, midY, tipX tail, tipY tail],
                 [fst endPt + (tipX tail - fst endPt) * 0.25, midY, fst endPt, snd endPt]]
          \<and> (r \<le> cbx - halfBase \<and> cbx + halfBase \<le> w - r
                \<longrightarrow> lowX = cbx - halfBase \<and> highX = cbx + halfBase)
          \<and> (r \<le> cby - halfBase \<and> cby + halfBase \<le> h - r
                \<longrightarrow> lowY = cby - halfBase \<and> highY = cby + halfBase)
          \<and> (w \<le> h \<longrightarrow> highX \<le> w / 2 \<and> w / 2 \<le> lowX)
          \<and> (h \<le> w \<longrightarrow> highY \<le> h / 2 \<and> h / 2 \<le> lowY)"
proof -
  have path: "bodyPath (generateBubblePaths b)
      = speechPath (min (b_width b) (b_height b) / 2) (b_width b) (b_height b) tail"
    by (rule generateBubblePaths_speech_tail [OF assms(1,2)])
  have drawn: "quadCurves (speechPath (min (b_width b) (b_height b) / 2) (b_width b) (b_height b) tail)
      \<noteq> []"
    using assms(3) path by simp
  note edge = speechPath_drawn_on_edge [OF drawn]
  note cmds = commands_speechPath_drawn [OF edge, of "min (b_width b) (b_height b) / 2",
      unfolded tailBasePoints_def tailCommands_def Let_def]
  note curves = quadCurves_speechPath_drawn [OF drawn,
      unfolded tailBasePoints_def tailCurves_def Let_def]
  have clampX: "r \<le> c - hb \<and> c + hb \<le> w - r \<longrightarrow> max r (c - hb) = c - hb \<and> min (w - r) (c + hb) = c + hb"
    for r c hb w :: real
    by simp
  have pillY: "h \<le> w \<longrightarrow> min (h - min w h / 2) x \<le> h / 2 \<and> h / 2 \<le> max (min w h / 2) y"
    for h w x y :: real
    by (simp add: min_def max_def)
  have pillX: "w \<le> h \<longrightarrow> min (w - min w h / 2) x \<le> w / 2 \<and> w / 2 \<le> max (min w h / 2) y"
    for h w x y :: real
    by (simp add: min_def max_def)
  show ?thesis
    unfolding Let_def path
    by (intro conjI) (rule edge cmds curves clampX pillX pillY)+
qed

lemma quadCurves_speechBubble:
  "quadCurves (bodyPath (generateBubblePaths speechBubble)) = [[82.5, 105, 75, 120], [67.5, 105, 65, 90]]"
proof -
  have "bodyPath (generateBubblePaths speechBubble) = speechPath 45 150 90 bottomTail"
    using generateBubblePaths_speech_tail [of speechBubble bottomTail]
    by (simp add: speechBubble_def)
  moreover have "quadCurves (speechPath 45 150 90 bottomTail) = [[82.5, 105, 75, 120], [67.5, 105, 65, 90]]"
    by (simp add: quadCurves_speechPath bottomTail_def tailCurves_def Let_def)
  ultimately show ?thesis by simp
qed

lemma quadCurves_sideBubble:
  "quadCurves (bodyPath (generateBubblePaths sideBubble)) = [[160, 45, 190, 45], [160, 45, 150, 45]]"
proof -
  have "bodyPath (generateBubblePaths sideBubble) = speechPath 45 150 90 sideTail"
    using generateBubblePaths_speech_tail [of sideBubble sideTail]
    by (simp add: sideBubble_def speechBubble_def)
  moreover have "quadCurves (speechPath 45 150 90 sideTail) = [[160, 45, 190, 45], [160, 45, 150, 45]]"
    by (simp add: quadCurves_speechPath sideTail_def bottomTail_def tailCurves_def Let_def)
  ultimately show ?thesis by simp
qed

lemma quadCurves_cornerBubble:
  "quadCurves (bodyPath (generateBubblePaths cornerBubble))
    = [[121.25, 105, 170, 120], [147.5, 105, 140, 90]]"
proof -
  have "bodyPath (generateBubblePaths cornerBubble) = speechPath 45 150 90 cornerTail"
    using generateBubblePaths_speech_tail [of cornerBubble cornerTail]
    by (simp add: cornerBubble_def speechBubble_def)
  moreover have "quadCurves (speechPath 45 150 90 cornerTail)
      = [[121.25, 105, 170, 120], [147.5, 105, 140, 90]]"
    by (simp add: quadCurves_speechPath cornerTail_def bottomTail_def tailCurves_def Let_def)
  ultimately show ?thesis by simp
qed

text \<open>Three tails on the bubble 150 by 90: on the bottom edge the base points are
  \<open>(85, 90)\<close> and \<open>(65, 90)\<close>, ten on either side of the centre; on the right edge both are
  \<open>(150, 45)\<close>; in the bottom-right corner they are \<open>(105, 90)\<close> and then \<open>(140, 90)\<close>.\<close>

theorem tail_cut_control_points_witness:
  "(b_type speechBubble = SpeechDown \<or> b_type speechBubble = SpeechUp
      \<or> b_type speechBubble = Whisper)
   \<and> findTail (b_parts speechBubble) = Some bottomTail
   \<and> quadCurves (bodyPath (generateBubblePaths speechBubble)) \<noteq> []
   \<and> (\<exists>pre post. commands (bodyPath (generateBubblePaths speechBubble))
        = pre @ [(CHR ''L'', [85, 90]), (CHR ''Q'', [82.5, 105, 75, 120]),
                 (CHR ''Q'', [67.5, 105, 65, 90])] @ post)
   \<and> findTail (b_parts sideBubble) = Some sideTail
   \<and> quadCurves (bodyPath (generateBubblePaths sideBubble)) \<noteq> []
   \<and> (\<exists>pre post. commands (bodyPath (generateBubblePaths sideBubble))
        = pre @ [(CHR ''L'', [150, 45]), (CHR ''Q'', [160, 45, 190, 45]),
                 (CHR ''Q'', [160, 45, 150, 45])] @ post)
   \<and> findTail (b_parts cornerBubble) = Some cornerTail
   \<and> quadCurves (bodyPath (generateBubblePaths cornerBubble)) \<noteq> []
   \<and> (\<exists>pre post. commands (bodyPath (generateBubblePaths cornerBubble))
        = pre @ [(CHR ''L'', [105, 90]), (CHR ''Q'', [121.25, 105, 170, 120]),
                 (CHR ''Q'', [147.5, 105, 140, 90])] @ post)"
proof -
  have ty: "b_type speechBubble = SpeechDown" "b_type sideBubble = SpeechDown"
    "b_type cornerBubble = SpeechDown"
    by (simp_all add: speechBubble_def sideBubble_def cornerBubble_def)
  have tails: "findTail (b_parts speechBubble) = Some bottomTail"
    "findTail (b_parts sideBubble) = Some sideTail"
    "findTail (b_parts cornerBubble) = Some cornerTail"
    by (simp_all add: speechBubble_def sideBubble_def cornerBubble_def)
  have drawn: "quadCurves (bodyPath (generateBubblePaths speechBubble)) \<noteq> []"
    "quadCurves (bodyPath (generateBubblePaths sideBubble)) \<noteq> []"
    "quadCurves (bodyPath (generateBubblePaths cornerBubble)) \<noteq> []"
    by (simp_all add: quadCurves_speechBubble quadCurves_sideBubble quadCurves_cornerBubble)
  have dims: "b_width speechBubble = 150" "b_height speechBubble = 90"
    "b_width sideBubble = 150" "b_height sideBubble = 90"
    "b_width cornerBubble = 150" "b_height cornerBubble = 90"
    by (simp_all add: speechBubble_def sideBubble_def cornerBubble_def)
  have bottom: "\<exists>pre post. commands (bodyPath (generateBubblePaths speechBubble))
        = pre @ [(CHR ''L'', [85, 90]), (CHR ''Q'', [82.5, 105, 75, 120]),
                 (CHR ''Q'', [67.5, 105, 65, 90])] @ post"
    using tail_cut_control_points [of speechBubble bottomTail] ty tails drawn
    by (simp add: dims bottomTail_def Let_def)
  have side: "\<exists>pre post. commands (bodyPath (generateBubblePaths sideBubble))
        = pre @ [(CHR ''L'', [150, 45]), (CHR ''Q'', [160, 45, 190, 45]),
                 (CHR ''Q'', [160, 45, 150, 45])] @ post"
    using tail_cut_control_points [of sideBubble sideTail] ty tails drawn
    by (simp add: dims sideTail_def bottomTail_def Let_def)
  have corner: "\<exists>pre post. commands (bodyPath (generateBubblePaths cornerBubble))
        = pre @ [(CHR ''L'', [105, 90]), (CHR ''Q'', [121.25, 105, 170, 120]),
                 (CHR ''Q'', [147.5, 105, 140, 90])] @ post"
    using tail_cut_control_points [of cornerBubble cornerTail] ty tails drawn
    by (simp add: dims cornerTail_def bottomTail_def Let_def)
  show ?thesis using ty tails drawn bottom side corner by simp
qed

text \<open>
  Claim C6 as stated fails: on the scenario's bubble the tail is on the bottom edge, whose
  coordinate across the edge is \<open>y = 90\<close>, and the control points of the two curves are
  \<open>(82.5, 105)\<close> and \<open>(67.5, 105)\<close>: their \<open>y\<close> is half way to the tip, not that of the edge.
\<close>

theorem tail_control_point_off_base_edge:
  "quadCurves (bodyPath (generateBubblePaths speechBubble))
      = [[82.5, 105, 75, 120], [67.5, 105, 65, 90]]
   \<and> baseCY bottomTail = 90 \<and> b_height speechBubble = 90
   \<and> findTail (b_parts speechBubble) = Some bottomTail"
  using quadCurves_speechBubble by (simp add: speechBubble_def bottomTail_def)

section \<open>The range of the seeded generator\<close>

lemma prng_random_state: "snd (prng_random s) = s + 1"
  by (simp add: prng_random_def Let_def)

lemma prng_random_range: "0 \<le> fst (prng_random s) \<and> fst (prng_random s) < 1"
proof -
  have "of_int \<lfloor>sin s * 10000\<rfloor> \<le> sin s * 10000"
    and "sin s * 10000 < of_int \<lfloor>sin s * 10000\<rfloor> + 1"
    using floor_correct [of "sin s * 10000"] by simp_all
  then have "0 \<le> sin s * 10000 - of_int \<lfloor>sin s * 10000\<rfloor>
      \<and> sin s * 10000 - of_int \<lfloor>sin s * 10000\<rfloor> < 1"
    by linarith
  then show ?thesis by (simp add: prng_random_def Let_def)
qed

lemma thoughtLobes_range: "7 \<le> thoughtLobes seed \<and> thoughtLobes seed \<le> 12"
proof -
  let ?u = "fst (prng_random seed)"
  have u: "0 \<le> ?u" "?u < 1" using prng_random_range [of seed] by simp_all
  have "0 \<le> ?u * 6" using u by simp
  then have lo: "0 \<le> \<lfloor>?u * 6\<rfloor>" by simp
  have "?u * 6 < 6" using u by simp
  then have hi: "\<lfloor>?u * 6\<rfloor> < 6" by (simp add: floor_less_iff)
  obtain m where m: "\<lfloor>?u * 6\<rfloor> = int m"
    using lo by (rule nonneg_int_cases)
  then have "m < 6" using hi by simp
  moreover have "thoughtLobes seed = m + 7"
    by (simp add: thoughtLobes_def m nat_add_distrib)
  ultimately show ?thesis by simp
qed

lemma bulgeFactorOf_range: "1.3 \<le> bulgeFactorOf seed i \<and> bulgeFactorOf seed i \<le> 1.6"
proof -
  let ?u = "fst (prng_random (seed + 1 + real i))"
  have u: "0 \<le> ?u" "?u < 1" using prng_random_range [of "seed + 1 + real i"] by simp_all
  have "0 \<le> ?u * 0.3" using u by simp
  moreover have "?u * 0.3 \<le> 0.3" using u by simp
  ultimately show ?thesis by (simp add: bulgeFactorOf_def)
qed

section \<open>The thought outline\<close>

lemma thoughtLoop_closed:
  "fst (thoughtLoop cx cy rx ry n i path st)
    = path @ concat (map (\<lambda>k. thoughtLobe cx cy rx ry n k
                              (1.3 + fst (prng_random (st + real (k - i))) * 0.3)) [i..<n])"
proof (induction "n - i" arbitrary: i path st)
  case 0
  then show ?case by (simp add: thoughtLoop.simps [of cx cy rx ry n i path st])
next
  case (Suc m)
  then have lt: "i < n" and m: "m = n - Suc i" by simp_all
  have step: "thoughtLoop cx cy rx ry n i path st
      = thoughtLoop cx cy rx ry n (Suc i)
          (path @ thoughtLobe cx cy rx ry n i (1.3 + fst (prng_random st) * 0.3)) (st + 1)"
    using lt by (simp add: thoughtLoop.simps [of cx cy rx ry n i path st] Let_def prng_random_state)
  have shift: "map (\<lambda>k. thoughtLobe cx cy rx ry n k
                  (1.3 + fst (prng_random (st + 1 + real (k - Suc i))) * 0.3)) [Suc i..<n]
      = map (\<lambda>k. thoughtLobe cx cy rx ry n k
                  (1.3 + fst (prng_random (st + real (k - i))) * 0.3)) [Suc i..<n]"
  proof (rule map_cong [OF refl])
    fix k assume "k \<in> set [Suc i..<n]"
    then have "Suc i \<le> k" by simp
    then have "st + 1 + real (k - Suc i) = st + real (k - i)"
      by (simp add: of_nat_diff)
    then show "thoughtLobe cx cy rx ry n k (1.3 + fst (prng_random (st + 1 + real (k - Suc i))) * 0.3)
      = thoughtLobe cx cy rx ry n k (1.3 + fst (prng_random (st + real (k - i))) * 0.3)"
      by simp
  qed
  show ?case
    unfolding step Suc.hyps(1) [OF m] shift
    using lt by (simp add: upt_conv_Cons)
qed

lemma thoughtLobe_parse:
  "foldr sym_step (concat (map tok_syms (thoughtLobe cx cy rx ry n i f))) ([], cs)
    = ([], lobeCommands cx cy rx ry n i f @ cs)"
  by (simp add: thoughtLobe_def lobeCommands_def lobeCurve_def lobeAngle_def Let_def)

lemma thoughtLobes_parse:
  "foldr sym_step (concat (map tok_syms (concat (map (\<lambda>k. thoughtLobe cx cy rx ry n k (f k)) ks))))
      ([], cs)
    = ([], concat (map (\<lambda>k. lobeCommands cx cy rx ry n k (f k)) ks) @ cs)"
  by (induction ks) (simp_all add: thoughtLobe_parse)

lemma lobeCommands_from_zero:
  assumes "0 < n"
  shows "concat (map (\<lambda>k. lobeCommands cx cy rx ry n k (f k)) [0..<n])
    = (CHR ''M'', [cx + rx * cos (lobeAngle n 0), cy + ry * sin (lobeAngle n 0)])
      # map (\<lambda>k. (CHR ''Q'', lobeCurve cx cy rx ry n k (f k))) [0..<n]"
proof -
  have tail: "concat (map (\<lambda>k. lobeCommands cx cy rx ry n k (f k)) [Suc 0..<n])
      = map (\<lambda>k. (CHR ''Q'', lobeCurve cx cy rx ry n k (f k))) [Suc 0..<n]"
  proof -
    have "map (\<lambda>k. lobeCommands cx cy rx ry n k (f k)) [Suc 0..<n]
        = map (\<lambda>k. [(CHR ''Q'', lobeCurve cx cy rx ry n k (f k))]) [Suc 0..<n]"
      by (rule map_cong [OF refl]) (simp add: lobeCommands_def)
    then show ?thesis by (simp only: concat_map_singleton)
  qed
  have "[0..<n] = 0 # [Suc 0..<n]" using assms by (simp add: upt_conv_Cons)
  then show ?thesis using tail by (simp add: lobeCommands_def)
qed

lemma commands_thoughtPath:
  "commands (thoughtPath w h seed)
    = (CHR ''M'', [w / 2 + w * 0.30 * cos (lobeAngle (thoughtLobes seed) 0),
                   h / 2 + h * 0.30 * sin (lobeAngle (thoughtLobes seed) 0)])
      # map (\<lambda>i. (CHR ''Q'', lobeCurve (w / 2) (h / 2) (w * 0.30) (h * 0.30) (thoughtLobes seed) i
                                 (bulgeFactorOf seed i)))
            [0..<thoughtLobes seed]
      @ [(CHR ''Z'', [])]"
proof -
  have pos: "0 < thoughtLobes seed" using thoughtLobes_range [of seed] by simp
  have state: "\<And>k. seed + 1 + real (k - 0) = seed + 1 + real k" by simp
  show ?thesis
    unfolding commands_def thoughtPath_def Let_def thoughtLoop_closed prng_random_state
      thoughtLobes_def [symmetric]
    by (simp add: thoughtLobes_parse lobeCommands_from_zero [OF pos] bulgeFactorOf_def)
qed

lemma lobeAngle_closed:
  assumes "0 < n"
  shows "cos (lobeAngle n n) = cos (lobeAngle n 0) \<and> sin (lobeAngle n n) = sin (lobeAngle n 0)"
proof -
  have "lobeAngle n n = lobeAngle n 0 + 2 * pi"
    using assms by (simp add: lobeAngle_def)
  then show ?thesis by simp
qed

lemma quadCurves_thoughtPath:
  "quadCurves (thoughtPath w h seed)
    = map (\<lambda>i. lobeCurve (w / 2) (h / 2) (w * 0.30) (h * 0.30) (thoughtLobes seed) i
                  (bulgeFactorOf seed i))
          [0..<thoughtLobes seed]"
  by (simp add: quadCurves_def commands_thoughtPath filter_map comp_def)

text \<open>
  Claim C8.  The outline of a thought bubble is a closed curve: a move to the top of the
  ellipse of radii \<open>0.30 * width\<close> and \<open>0.30 * height\<close> about the centre, then one quadratic
  curve per lobe, then \<open>Z\<close>.  The number of lobes is drawn from the seeded generator and
  lies between 7 and 12; lobe \<open>i\<close> ends on the ellipse at the angle of lobe \<open>i + 1\<close>, the last
  one where the first began; and its control point lies at the mid angle, pushed outward
  by a factor drawn from the generator, between 1.3 and 1.6.
\<close>

theorem thought_outline_lobes:
  assumes "b_type b = Thought"
  shows "7 \<le> thoughtLobes (seedOf b) \<and> thoughtLobes (seedOf b) \<le> 12
    \<and> commands (bodyPath (generateBubblePaths b))
      = (CHR ''M'', [b_width b / 2 + b_width b * 0.30 * cos (lobeAngle (thoughtLobes (seedOf b)) 0),
                     b_height b / 2 + b_height b * 0.30 * sin (lobeAngle (thoughtLobes (seedOf b)) 0)])
        # map (\<lambda>i. (CHR ''Q'', lobeCurve (b_width b / 2) (b_height b / 2)
                                   (b_width b * 0.30) (b_height b * 0.30)
                                   (thoughtLobes (seedOf b)) i (bulgeFactorOf (seedOf b) i)))
              [0..<thoughtLobes (seedOf b)]
        @ [(CHR ''Z'', [])]
    \<and> length (quadCurves (bodyPath (generateBubblePaths b))) = thoughtLobes (seedOf b)
    \<and> (\<forall>i. 1.3 \<le> bulgeFactorOf (seedOf b) i \<and> bulgeFactorOf (seedOf b) i \<le> 1.6)
    \<and> cos (lobeAngle (thoughtLobes (seedOf b)) (thoughtLobes (seedOf b)))
        = cos (lobeAngle (thoughtLobes (seedOf b)) 0)
    \<and> sin (lobeAngle (thoughtLobes (seedOf b)) (thoughtLobes (seedOf b)))
        = sin (lobeAngle (thoughtLobes (seedOf b)) 0)"
proof -
  have path: "bodyPath (generateBubblePaths b) = thoughtPath (b_width b) (b_height b) (seedOf b)"
    using assms by (simp add: generateBubblePaths_def Let_def)
  have pos: "0 < thoughtLobes (seedOf b)"
    using thoughtLobes_range [of "seedOf b"] by simp
  show ?thesis
    unfolding path
    using thoughtLobes_range [of "seedOf b"] lobeAngle_closed [OF pos]
      bulgeFactorOf_range [of "seedOf b"]
    by (simp add: commands_thoughtPath quadCurves_thoughtPath)
qed

theorem thought_outline_lobes_witness:
  "b_type thoughtBubble = Thought
   \<and> 7 \<le> length (quadCurves (bodyPath (generateBubblePaths thoughtBubble)))
   \<and> length (quadCurves (bodyPath (generateBubblePaths thoughtBubble))) \<le> 12"
  using thought_outline_lobes [of thoughtBubble]
  by (simp add: thoughtBubble_def)

section \<open>The safe zone\<close>

lemma getTextBounds_within:
  assumes "0 \<le> b_width b" "0 \<le> b_height b"
  shows "tb_width (getTextBounds b) \<le> b_width b \<and> tb_height (getTextBounds b) \<le> b_height b"
proof -
  have scale: "\<And>v f :: real. 0 \<le> v \<Longrightarrow> f \<le> 1 \<Longrightarrow> v * f \<le> v"
    by (simp add: mult_left_le)
  show ?thesis
    using assms by (cases "b_type b") (simp_all add: getTextBounds_def Let_def scale)
qed

lemma intersectLoop_none_above:
  assumes "\<And>d. \<not> snd (getPointAtLength host path d) < targetY"
  shows "intersectLoop host path targetY len prec i False lp acc = acc"
proof (induction "Suc prec - i" arbitrary: i lp)
  case 0
  then show ?case
    by (simp add: intersectLoop.simps [of host path targetY len prec i False lp acc])
next
  case (Suc m)
  then have m: "m = Suc prec - Suc i" and le: "i \<le> prec" by simp_all
  show ?case
    using le assms Suc.hyps(1) [OF m]
    by (simp add: intersectLoop.simps [of host path targetY len prec i False lp acc] Let_def
        split: option.split)
qed

lemma findIntersectionsAtY_none_above:
  assumes "\<And>d. \<not> snd (getPointAtLength host path d) < targetY"
  shows "findIntersectionsAtY host path targetY len = []"
  unfolding findIntersectionsAtY_def by (rule intersectLoop_none_above [OF assms])

lemma sampleRow_top:
  assumes "\<And>d. 0 \<le> snd (getPointAtLength host path d)"
  shows "sampleRow host path totalHeight numSamples len 0 = totalHeight * 0.5"
proof -
  have "findIntersectionsAtY host path 0 len = []"
    by (rule findIntersectionsAtY_none_above) (simp add: assms not_less)
  then show ?thesis by (simp add: sampleRow_def Let_def)
qed

lemma bulge_times_sin:
  fixes f a :: real
  assumes "0 \<le> f" "f \<le> 1.6"
  shows "- 1.6 \<le> f * sin a"
proof -
  have "\<bar>f * sin a\<bar> = f * \<bar>sin a\<bar>" using assms by (simp add: abs_mult)
  also have "\<dots> \<le> f * 1" using assms by (intro mult_left_mono) simp_all
  also have "\<dots> \<le> 1.6" using assms by simp
  finally show ?thesis by linarith
qed

text \<open>Every point the thought outline names, the end point and the control point of every
  lobe, lies at or below the top of the box when the height is not negative: their \<open>y\<close> is
  at least \<open>0.02 * height\<close>.\<close>

lemma thought_outline_below_top:
  assumes "0 \<le> h" and "i < thoughtLobes seed"
  shows "0.02 * h \<le> quadCurves (thoughtPath w h seed) ! i ! 1
    \<and> 0.02 * h \<le> quadCurves (thoughtPath w h seed) ! i ! 3"
proof -
  let ?f = "bulgeFactorOf seed i"
  let ?n = "thoughtLobes seed"
  have f: "0 \<le> ?f" "?f \<le> 1.6" using bulgeFactorOf_range [of seed i] by simp_all
  have c: "- 1.6 \<le> ?f * sin ((lobeAngle ?n i + lobeAngle ?n (i + 1)) / 2)"
    by (rule bulge_times_sin [OF f])
  have "h * 0.30 * (- 1.6) \<le> h * 0.30 * (?f * sin ((lobeAngle ?n i + lobeAngle ?n (i + 1)) / 2))"
    using assms(1) c by (intro mult_left_mono) simp_all
  then have ctrl: "0.02 * h \<le> h / 2 + h * 0.30 * ?f * sin ((lobeAngle ?n i + lobeAngle ?n (i + 1)) / 2)"
    by (simp add: field_simps)
  have "- 1 \<le> sin (lobeAngle ?n (i + 1))" by simp
  then have "h * 0.30 * (- 1) \<le> h * 0.30 * sin (lobeAngle ?n (i + 1))"
    using assms(1) by (intro mult_left_mono) simp_all
  then have endp: "0.02 * h \<le> h / 2 + h * 0.30 * sin (lobeAngle ?n (i + 1))"
    using assms(1) by (simp add: field_simps)
  show ?thesis
    using assms(2) ctrl endp by (simp add: quadCurves_thoughtPath lobeCurve_def)
qed

text \<open>
  Claim C2, at the failing row.  When no sampled point of the outline lies above the row
  \<open>y = 0\<close>, which is so for every outline inside the bubble's box (for a thought outline,
  \<open>thought_outline_below_top\<close>), the row function returns half the height for \<open>y = 0\<close>:
  the branch for fewer than two intersections pushes \<open>totalHeight * 0.5\<close>, and the bubble's
  width does not enter.
\<close>

theorem calculateTextBounds_fallback_uses_height:
  assumes "b_type b \<noteq> Descriptive" and "b_type b \<noteq> TextOnly" and "0 < b_height b"
    and "\<And>d. 0 \<le> snd (getPointAtLength host (bodyPath (generateBubblePaths b)) d)"
  shows "calculateTextBounds host b 0 = Some (b_height b * 0.5)"
proof -
  let ?path = "bodyPath (generateBubblePaths b)"
  let ?samples = "samplePathAtYPositions host ?path (b_height b) 20"
  have len: "length ?samples = 20"
    by (simp add: samplePathAtYPositions_def Let_def)
  have first: "?samples ! 0 = b_height b * 0.5"
    using sampleRow_top [of host ?path, OF assms(4)]
    by (simp add: samplePathAtYPositions_def Let_def nth_map_upt)
  show ?thesis
    using assms(1-3) len first by (simp add: calculateTextBounds_def Let_def)
qed

theorem calculateTextBounds_fallback_uses_height_witness:
  "b_type thoughtBubble \<noteq> Descriptive \<and> b_type thoughtBubble \<noteq> TextOnly
   \<and> 0 < b_height thoughtBubble
   \<and> calculateTextBounds (ellipseHost 50 200) thoughtBubble 0 = Some 100
   \<and> b_width thoughtBubble = 50"
proof -
  have above: "0 \<le> snd (getPointAtLength (ellipseHost 50 200) p d)" for p d
  proof -
    have "- 1 \<le> sin d" by simp
    then have "0 \<le> 100 + 60 * sin d" by linarith
    then show ?thesis by (simp add: ellipseHost_def)
  qed
  show ?thesis
    using calculateTextBounds_fallback_uses_height [of thoughtBubble "ellipseHost 50 200"] above
    by (simp add: thoughtBubble_def)
qed

end
